theory Spec2Isabelle
  imports Complex_Main "HOL-Library.Word" "HOL-Library.Monad_Syntax"
begin

unbundle bit_operations_syntax

section \<open>The Vehicle Supervisor of DUNE (src/Supervisors/Vehicle/Task.cpp)\<close>

text \<open>
  The supervisor is a periodic task: a record of fields, one handler \<open>consume\<close> per message
  kind it is bound to, and the periodic \<open>task\<close>. Handlers and the tick are serialized, so
  each is a function from the task's state to its next state. Messages the task sends are
  appended to the field \<open>bus\<close>, in the order of the \<open>dispatch\<close> calls. Log output
  (\<open>err\<close>, \<open>war\<close>, \<open>inf\<close>, \<open>debug\<close>, \<open>trace\<close>) is not part of the state and is left out.
  Clock readings and time stamps are seconds. The value of a \<open>double\<close> or \<open>float\<close> variable
  is a real number; where the source rounds (a \<open>double\<close> narrowed to the \<open>float\<close>
  \<open>m_switch_time\<close>, the subtraction of two \<open>double\<close>s in \<open>task\<close>), the rounded result is a
  function of the platform, left open.
\<close>

subsection \<open>IMC messages\<close>

datatype OperationModeEnum = VS_SERVICE | VS_CALIBRATION | VS_ERROR | VS_MANEUVER | VS_EXTERNAL

record VehicleState =
  op_mode :: OperationModeEnum
  maneuver_type :: "16 word"
  maneuver_stime :: real
  maneuver_eta :: "16 word"
  error_ents :: string
  error_count :: "8 word"
  flags :: "8 word"
  last_error :: string
  last_error_time :: real
  control_loops :: "32 word"

text \<open>
  A message seen through the base class \<open>IMC::Message\<close>, as the maneuver of a
  \<open>VehicleCommand\<close> is: \<open>getId()\<close>, \<open>getName()\<close>, \<open>getTimeStamp()\<close> and its serialized fields (payload).
\<close>

record Message =
  getId :: "16 word"
  getName :: string
  getTimeStamp :: real
  payload :: string

text \<open>
  The values of \<open>VehicleCommand::type\<close> and \<open>VehicleCommand::command\<close>. The source names
  three commands (\<open>c_cmd_desc\<close>); \<open>VC_OTHER_COMMAND\<close> stands for every other value of the
  field, for which the \<open>switch\<close> of \<open>consume\<close> has no case.
\<close>

datatype TypeEnum = VC_REQUEST | VC_SUCCESS | VC_IN_PROGRESS | VC_FAILURE

datatype CommandEnum = VC_EXEC_MANEUVER | VC_STOP_MANEUVER | VC_CALIBRATE | VC_OTHER_COMMAND

record VehicleCommand =
  vc_source :: "16 word"
  vc_source_entity :: "8 word"
  vc_destination :: "16 word"
  vc_destination_entity :: "8 word"
  vc_type :: TypeEnum
  vc_request_id :: "16 word"
  vc_command :: CommandEnum
  vc_maneuver :: "Message option"
  vc_info :: string

datatype EnableEnum = CL_DISABLE | CL_ENABLE

record ControlLoops =
  cl_enable :: EnableEnum
  cl_mask :: "32 word"

record EntityMonitoringState =
  ccount :: "8 word"
  cnames :: string
  ecount :: "8 word"
  enames :: string
  ems_last_error :: string
  ems_last_error_time :: real

text \<open>
  \<open>MCS_OTHER_STATE\<close> stands for every value of \<open>ManeuverControlState::state\<close> that the
  \<open>switch\<close> of \<open>consume\<close> has no case for.
\<close>

datatype StateEnum = MCS_EXECUTING | MCS_DONE | MCS_ERROR | MCS_OTHER_STATE

record ManeuverControlState =
  mcs_source :: "16 word"
  mcs_timestamp :: real
  mcs_state :: StateEnum
  mcs_eta :: "16 word"
  mcs_info :: string

datatype PlanControlTypeEnum = PC_REQUEST | PC_SUCCESS | PC_FAILURE | PC_IN_PROGRESS

datatype PlanControlOpEnum = PC_START | PC_STOP | PC_LOAD | PC_GET

record PlanControl =
  pc_type :: PlanControlTypeEnum
  pc_op :: PlanControlOpEnum
  pc_flags :: "16 word"

text \<open>What the task puts on the bus.\<close>

datatype Msg =
    StopManeuver
  | IdleManeuver "16 word"
  | Calibration "16 word"
  | VehicleStateMsg VehicleState
  | VehicleCommandMsg VehicleCommand
  | ManeuverMsg Message

subsection \<open>What the task uses from outside its source file\<close>

text \<open>
  The two clocks of \<open>DUNE::Time::Clock\<close>, read when a handler runs: \<open>Clock::get()\<close>
  (monotonic) and \<open>Clock::getSinceEpoch()\<close> (wall clock).
\<close>

record Clock =
  Clock_get :: real
  Clock_getSinceEpoch :: real

text \<open>
  Helpers and constants declared in DUNE's libraries and in the generated IMC headers: the
  supervisor is verified for every value of them.
  \<^item> \<open>String_split s sep\<close>: the list \<open>String::split(s, sep, lst)\<close> fills;
  \<^item> \<open>Factory_getAbbrevFromId\<close>: \<open>IMC::Factory::getAbbrevFromId\<close>;
  \<^item> \<open>getSystemId\<close>: the id of the system the task runs on;
  \<^item> \<open>dispatch_stamp clk m\<close>: the time stamp the message \<open>m\<close> carries once
    \<open>Task::dispatch\<close> has sent it at \<open>clk\<close>;
  \<^item> the bit masks and the message id the source names.

  With them, what the compiler and the machine decide:
  \<^item> \<open>to_float x\<close>: the \<open>float\<close> that the \<open>double\<close> \<open>x\<close> becomes when it is assigned to
    \<open>m_switch_time\<close>;
  \<^item> \<open>minus_double x y\<close>: the \<open>double\<close> that the subtraction \<open>x - y\<close> yields;
  \<^item> \<open>uint16_out_of_range x\<close>: what the cast \<open>(uint16_t)x\<close> yields for an \<open>x\<close> whose
    integer part is no \<open>uint16_t\<close> (undefined in C++).
\<close>

record Platform =
  String_split :: "string \<Rightarrow> string \<Rightarrow> string list"
  Factory_getAbbrevFromId :: "16 word \<Rightarrow> string"
  getSystemId :: "16 word"
  dispatch_stamp :: "Clock \<Rightarrow> Message \<Rightarrow> real"
  CL_TELEOPERATION :: "32 word"
  CL_NO_OVERRIDE :: "32 word"
  VFLG_MANEUVER_DONE :: "8 word"
  FLG_IGNORE_ERRORS :: "16 word"
  DUNE_IMC_TELEOPERATION :: "16 word"
  to_float :: "real \<Rightarrow> real"
  minus_double :: "real \<Rightarrow> real \<Rightarrow> real"
  uint16_out_of_range :: "real \<Rightarrow> 16 word"

text \<open>
  Modelled from the spec: the macro \<open>DTR\<close> (translation of a text) is declared outside
  src/; the spec quotes the texts untranslated, so \<open>DTR\<close> returns its argument.
\<close>

definition DTR :: "string \<Rightarrow> string" where
  "DTR s = s"

text \<open>
  Modelled from the spec: \<open>Time::Counter\<close> is declared outside src/. The spec only says
  that the error timer is reset and that reports are limited to one per period: a counter
  keeps its period \<open>top\<close> and the instant of its last reset, and overflows once the period
  has passed since then.
\<close>

record Counter =
  top :: real
  last_reset :: real

definition Counter_reset :: "Clock \<Rightarrow> Counter \<Rightarrow> Counter" where
  "Counter_reset clk c = c\<lparr>last_reset := Clock_get clk\<rparr>"

definition Counter_setTop :: "Clock \<Rightarrow> real \<Rightarrow> Counter \<Rightarrow> Counter" where
  "Counter_setTop clk t c = Counter_reset clk (c\<lparr>top := t\<rparr>)"

definition Counter_overflow :: "Clock \<Rightarrow> Counter \<Rightarrow> bool" where
  "Counter_overflow clk c \<longleftrightarrow> top c \<le> Clock_get clk - last_reset c"

subsection \<open>The task\<close>

definition c_error_period :: real where
  "c_error_period = 2"

definition c_man_timeout :: real where
  "c_man_timeout = 1"

record Arguments =
  calibration_time :: real
  safe_ents :: "string list"

text \<open>
  The fields of \<open>struct Task\<close>. \<open>m_calibration\<close> and \<open>m_idle\<close> are kept by their one field
  \<open>duration\<close>; \<open>m_stop\<close> has no field. \<open>bus\<close> is the sequence of messages dispatched so far.
\<close>

record Task =
  m_switch_time :: real
  m_in_safe_plan :: bool
  m_err_timer :: Counter
  m_calibration :: "16 word"
  m_vc_reply :: VehicleCommand
  m_vs :: VehicleState
  m_idle :: "16 word"
  m_args :: Arguments
  bus :: "Msg list"

definition dispatch :: "Msg \<Rightarrow> Task \<Rightarrow> Task" where
  "dispatch msg t = t\<lparr>bus := bus t @ [msg]\<rparr>"

definition modeIs :: "OperationModeEnum \<Rightarrow> Task \<Rightarrow> bool" where
  "modeIs mode t \<longleftrightarrow> op_mode (m_vs t) = mode"

definition serviceMode :: "Task \<Rightarrow> bool" where
  "serviceMode t = modeIs VS_SERVICE t"

definition maneuverMode :: "Task \<Rightarrow> bool" where
  "maneuverMode t = modeIs VS_MANEUVER t"

definition errorMode :: "Task \<Rightarrow> bool" where
  "errorMode t = modeIs VS_ERROR t"

definition externalMode :: "Task \<Rightarrow> bool" where
  "externalMode t = modeIs VS_EXTERNAL t"

definition calibrationMode :: "Task \<Rightarrow> bool" where
  "calibrationMode t = modeIs VS_CALIBRATION t"

definition maneuverIs :: "16 word \<Rightarrow> Task \<Rightarrow> bool" where
  "maneuverIs mid t \<longleftrightarrow> maneuver_type (m_vs t) = mid"

definition teleoperationOn :: "Platform \<Rightarrow> Task \<Rightarrow> bool" where
  "teleoperationOn P t = maneuverIs (DUNE_IMC_TELEOPERATION P) t"

definition nonOverridableLoops :: "Platform \<Rightarrow> Task \<Rightarrow> bool" where
  "nonOverridableLoops P t \<longleftrightarrow>
     control_loops (m_vs t) AND (CL_TELEOPERATION P OR CL_NO_OVERRIDE P) \<noteq> 0"

text \<open>
  \<open>setInitialState\<close>; \<open>setEntityState\<close> concerns the entity of the task, not these fields.
\<close>

definition setInitialState :: "Task \<Rightarrow> Task" where
  "setInitialState t =
     t\<lparr>m_vs := (m_vs t)\<lparr>op_mode := VS_SERVICE, maneuver_type := 0xFFFF, maneuver_stime := - 1,
         maneuver_eta := 0xFFFF, error_ents := [], error_count := 0, flags := 0,
         last_error := [], last_error_time := - 1, control_loops := 0\<rparr>\<rparr>"

definition onResourceInitialization :: "Clock \<Rightarrow> Task \<Rightarrow> Task" where
  "onResourceInitialization clk t =
     (let t1 = setInitialState t;
          t2 = t1\<lparr>m_err_timer := Counter_setTop clk c_error_period (m_err_timer t1)\<rparr>
      in t2\<lparr>m_idle := 0\<rparr>)"

text \<open>The two loops of \<open>entityError\<close>: the inner one over \<open>safe_ents\<close>, the outer over the
  entities in error; either returns at the first equal pair.\<close>

fun safe_loop :: "string \<Rightarrow> string list \<Rightarrow> bool" where
  "safe_loop ent [] = False"
| "safe_loop ent (sf # rest) = (if ent = sf then True else safe_loop ent rest)"

fun ents_loop :: "string list \<Rightarrow> string list \<Rightarrow> bool" where
  "ents_loop [] safe = False"
| "ents_loop (ent # rest) safe = (if safe_loop ent safe then True else ents_loop rest safe)"

definition entityError :: "Platform \<Rightarrow> Task \<Rightarrow> bool" where
  "entityError P t =
     (if error_count (m_vs t) \<noteq> 0 then
        (if length (safe_ents (m_args t)) \<noteq> 0 \<and> m_in_safe_plan t then
           ents_loop (String_split P (error_ents (m_vs t)) '','') (safe_ents (m_args t))
         else True)
      else False)"

definition reset :: "Clock \<Rightarrow> Task \<Rightarrow> Task" where
  "reset clk t =
     (let t1 = (if maneuverMode t then dispatch StopManeuver t else t);
          t2 = t1\<lparr>m_in_safe_plan := False\<rparr>;
          t3 = t2\<lparr>m_err_timer := Counter_reset clk (m_err_timer t2)\<rparr>;
          t4 = t3\<lparr>m_vs := (m_vs t3)\<lparr>control_loops := 0\<rparr>\<rparr>
      in dispatch (IdleManeuver (m_idle t4)) t4)"

text \<open>
  \<open>changeMode(s, maneuver)\<close>: the pointer \<open>maneuver\<close> defaults to null (\<open>None\<close>) and is
  dereferenced in maneuver mode; the result \<open>None\<close> is that dereference of a null pointer.
\<close>

definition changeMode ::
  "Platform \<Rightarrow> Clock \<Rightarrow> OperationModeEnum \<Rightarrow> Message option \<Rightarrow> Task \<Rightarrow> Task option" where
  "changeMode P clk s0 maneuver t =
     (let t1 =
        (if op_mode (m_vs t) \<noteq> s0 then
           (let s = (if s0 = VS_SERVICE \<and> entityError P t then VS_ERROR else s0);
                u = t\<lparr>m_vs := (m_vs t)\<lparr>op_mode := s\<rparr>\<rparr>
            in if \<not> maneuverMode u then
                 u\<lparr>m_vs := (m_vs u)\<lparr>maneuver_type := 0xFFFF, maneuver_stime := - 1,
                     maneuver_eta := 0xFFFF,
                     flags := flags (m_vs u) AND NOT (VFLG_MANEUVER_DONE P)\<rparr>\<rparr>
               else u)
         else t);
        r =
        (if maneuverMode t1 then
           (case maneuver of
              None \<Rightarrow> None
            | Some m \<Rightarrow>
                (let sent = m\<lparr>getTimeStamp := dispatch_stamp P clk m\<rparr>;
                     t2 = dispatch (ManeuverMsg sent) t1
                 in Some (t2\<lparr>m_vs := (m_vs t2)\<lparr>maneuver_stime := getTimeStamp sent,
                            maneuver_type := getId sent, maneuver_eta := 0xFFFF,
                            last_error := [], last_error_time := - 1,
                            flags := flags (m_vs t2) AND NOT (VFLG_MANEUVER_DONE P)\<rparr>\<rparr>)))
         else Some t1)
      in r \<bind> (\<lambda>t3. let t4 = t3\<lparr>m_switch_time := - 1\<rparr>
                     in Some (dispatch (VehicleStateMsg (m_vs t4)) t4)))"

text \<open>\<open>onEnabledControlLoops\<close> and \<open>onDisabledControlLoops\<close>.\<close>

definition onEnabledControlLoops :: "Platform \<Rightarrow> Clock \<Rightarrow> Task \<Rightarrow> Task option" where
  "onEnabledControlLoops P clk t =
     (case op_mode (m_vs t) of
        VS_SERVICE \<Rightarrow> changeMode P clk VS_EXTERNAL None t
      | VS_ERROR \<Rightarrow>
          (if nonOverridableLoops P t then changeMode P clk VS_EXTERNAL None t
           else Some (reset clk t))
      | _ \<Rightarrow> Some t)"

definition onDisabledControlLoops :: "Platform \<Rightarrow> Clock \<Rightarrow> Task \<Rightarrow> Task option" where
  "onDisabledControlLoops P clk t =
     (if externalMode t then changeMode P clk VS_SERVICE None t else Some t)"

subsection \<open>The handlers\<close>

definition consume_Abort :: "Platform \<Rightarrow> Clock \<Rightarrow> Task \<Rightarrow> Task option" where
  "consume_Abort P clk t =
     (let t1 = t\<lparr>m_vs := (m_vs t)\<lparr>last_error := DTR ''got abort request'',
                   last_error_time := Clock_getSinceEpoch clk\<rparr>\<rparr>
      in if \<not> errorMode t1 then
           (let t2 = reset clk t1
            in if \<not> externalMode t2 \<or> \<not> nonOverridableLoops P t2
               then changeMode P clk VS_SERVICE None t2
               else Some t2)
         else Some t1)"

definition consume_ControlLoops ::
  "Platform \<Rightarrow> Clock \<Rightarrow> ControlLoops \<Rightarrow> Task \<Rightarrow> Task option" where
  "consume_ControlLoops P clk msg t =
     (let was = control_loops (m_vs t)
      in if cl_enable msg = CL_ENABLE then
           (let t1 = t\<lparr>m_vs := (m_vs t)\<lparr>control_loops := control_loops (m_vs t) OR cl_mask msg\<rparr>\<rparr>
            in if was = 0 \<and> control_loops (m_vs t1) \<noteq> 0
               then onEnabledControlLoops P clk t1 else Some t1)
         else
           (let t1 = t\<lparr>m_vs := (m_vs t)\<lparr>control_loops :=
                          control_loops (m_vs t) AND NOT (cl_mask msg)\<rparr>\<rparr>
            in if was \<noteq> 0 \<and> control_loops (m_vs t1) = 0
               then onDisabledControlLoops P clk t1 else Some t1))"

text \<open>
  \<open>error_count\<close>, \<open>ccount\<close> and \<open>ecount\<close> are \<open>uint8_t\<close>: the sum is stored modulo 256.
  In the first \<open>if\<close>/\<open>else if\<close> only the restart of the error timer changes the state.
\<close>

definition consume_EntityMonitoringState ::
  "Platform \<Rightarrow> Clock \<Rightarrow> EntityMonitoringState \<Rightarrow> Task \<Rightarrow> Task option" where
  "consume_EntityMonitoringState P clk msg t =
     (let prev_count = error_count (m_vs t);
          t1 = t\<lparr>m_vs := (m_vs t)\<lparr>error_count := ccount msg + ecount msg\<rparr>\<rparr>;
          t2 = (if error_count (m_vs t1) \<noteq> 0 \<and> ems_last_error_time msg > last_error_time (m_vs t1)
                then t1\<lparr>m_vs := (m_vs t1)\<lparr>last_error := ems_last_error msg,
                           last_error_time := ems_last_error_time msg\<rparr>\<rparr>
                else t1);
          t3 = t2\<lparr>m_vs := (m_vs t2)\<lparr>error_ents := []\<rparr>\<rparr>;
          t4 = (if ccount msg \<noteq> 0 then t3\<lparr>m_vs := (m_vs t3)\<lparr>error_ents := cnames msg\<rparr>\<rparr> else t3);
          t5 = (if ecount msg \<noteq> 0
                then t4\<lparr>m_vs := (m_vs t4)\<lparr>error_ents := error_ents (m_vs t4) @
                           ((if ccount msg \<noteq> 0 then '','' else []) @ enames msg)\<rparr>\<rparr>
                else t4);
          t6 = (if prev_count \<noteq> 0 \<and> error_count (m_vs t5) = 0 then t5
                else if prev_count \<noteq> error_count (m_vs t5) \<and> Counter_overflow clk (m_err_timer t5)
                then t5\<lparr>m_err_timer := Counter_reset clk (m_err_timer t5)\<rparr>
                else t5)
      in if errorMode t6 then
           (if error_count (m_vs t6) = 0 then changeMode P clk VS_SERVICE None t6 else Some t6)
         else if externalMode t6 \<or> maneuverMode t6 then
           (if entityError P t6 \<and> \<not> nonOverridableLoops P t6 \<and> \<not> teleoperationOn P t6
            then changeMode P clk VS_ERROR None (reset clk t6)
            else Some t6)
         else if entityError P t6 \<and> \<not> calibrationMode t6
         then changeMode P clk VS_ERROR None (reset clk t6)
         else Some t6)"

text \<open>
  The first half of that handler on its own, up to the checks of the mode: the state in
  which the message has been recorded (\<open>t6\<close> above).
\<close>

definition record_errors :: "Clock \<Rightarrow> EntityMonitoringState \<Rightarrow> Task \<Rightarrow> Task" where
  "record_errors clk msg t =
     (let prev_count = error_count (m_vs t);
          t1 = t\<lparr>m_vs := (m_vs t)\<lparr>error_count := ccount msg + ecount msg\<rparr>\<rparr>;
          t2 = (if error_count (m_vs t1) \<noteq> 0 \<and> ems_last_error_time msg > last_error_time (m_vs t1)
                then t1\<lparr>m_vs := (m_vs t1)\<lparr>last_error := ems_last_error msg,
                           last_error_time := ems_last_error_time msg\<rparr>\<rparr>
                else t1);
          t3 = t2\<lparr>m_vs := (m_vs t2)\<lparr>error_ents := []\<rparr>\<rparr>;
          t4 = (if ccount msg \<noteq> 0 then t3\<lparr>m_vs := (m_vs t3)\<lparr>error_ents := cnames msg\<rparr>\<rparr> else t3);
          t5 = (if ecount msg \<noteq> 0
                then t4\<lparr>m_vs := (m_vs t4)\<lparr>error_ents := error_ents (m_vs t4) @
                           ((if ccount msg \<noteq> 0 then '','' else []) @ enames msg)\<rparr>\<rparr>
                else t4);
          t6 = (if prev_count \<noteq> 0 \<and> error_count (m_vs t5) = 0 then t5
                else if prev_count \<noteq> error_count (m_vs t5) \<and> Counter_overflow clk (m_err_timer t5)
                then t5\<lparr>m_err_timer := Counter_reset clk (m_err_timer t5)\<rparr>
                else t5)
      in t6)"

definition consume_ManeuverControlState ::
  "Platform \<Rightarrow> Clock \<Rightarrow> ManeuverControlState \<Rightarrow> Task \<Rightarrow> Task option" where
  "consume_ManeuverControlState P clk msg t =
     (if mcs_source msg \<noteq> getSystemId P then Some t
      else if \<not> maneuverMode t then Some t
      else
        (case mcs_state msg of
           MCS_EXECUTING \<Rightarrow>
             (if mcs_eta msg \<noteq> maneuver_eta (m_vs t) then
                (let t1 = t\<lparr>m_vs := (m_vs t)\<lparr>maneuver_eta := mcs_eta msg\<rparr>\<rparr>
                 in Some (dispatch (VehicleStateMsg (m_vs t1)) t1))
              else Some t)
         | MCS_DONE \<Rightarrow>
             (let t1 = t\<lparr>m_vs := (m_vs t)\<lparr>maneuver_eta := 0,
                           flags := flags (m_vs t) OR VFLG_MANEUVER_DONE P\<rparr>\<rparr>;
                  t2 = dispatch (VehicleStateMsg (m_vs t1)) t1
              in Some (t2\<lparr>m_switch_time := to_float P (Clock_get clk)\<rparr>))
         | MCS_ERROR \<Rightarrow>
             (let t1 = t\<lparr>m_vs := (m_vs t)\<lparr>last_error :=
                           Factory_getAbbrevFromId P (maneuver_type (m_vs t)) @
                           '' maneuver error: '' @ mcs_info msg,
                           last_error_time := mcs_timestamp msg\<rparr>\<rparr>
              in changeMode P clk VS_SERVICE None t1 \<bind> (\<lambda>t2. Some (reset clk t2)))
         | MCS_OTHER_STATE \<Rightarrow> Some t))"

definition consume_PlanControl :: "Platform \<Rightarrow> PlanControl \<Rightarrow> Task \<Rightarrow> Task" where
  "consume_PlanControl P msg t =
     (if pc_type msg = PC_REQUEST \<and> pc_op msg = PC_START then
        (if pc_flags msg AND FLG_IGNORE_ERRORS P \<noteq> 0
         then t\<lparr>m_in_safe_plan := True\<rparr>
         else t\<lparr>m_in_safe_plan := False\<rparr>)
      else t)"

definition answer :: "VehicleCommand \<Rightarrow> TypeEnum \<Rightarrow> string \<Rightarrow> Task \<Rightarrow> Task" where
  "answer cmd type desc t =
     (let t1 = t\<lparr>m_vc_reply := (m_vc_reply t)\<lparr>vc_destination := vc_source cmd,
                   vc_destination_entity := vc_source_entity cmd, vc_type := type,
                   vc_command := vc_command cmd, vc_request_id := vc_request_id cmd,
                   vc_info := desc\<rparr>\<rparr>
      in dispatch (VehicleCommandMsg (m_vc_reply t1)) t1)"

definition requestOK :: "VehicleCommand \<Rightarrow> string \<Rightarrow> Task \<Rightarrow> Task" where
  "requestOK cmd desc t = answer cmd VC_SUCCESS desc t"

definition requestFailed :: "VehicleCommand \<Rightarrow> string \<Rightarrow> Task \<Rightarrow> Task" where
  "requestFailed cmd desc t = answer cmd VC_FAILURE desc t"

text \<open>
  \<open>(uint16_t)m_args.calibration_time\<close> drops the fraction of the configured time, when what
  is left is a \<open>uint16_t\<close>: for a time above -1 and below 65536.
\<close>

definition to_uint16 :: "Platform \<Rightarrow> real \<Rightarrow> 16 word" where
  "to_uint16 P x =
     (if - 1 < x \<and> x < 65536 then word_of_int (if 0 \<le> x then \<lfloor>x\<rfloor> else 0)
      else uint16_out_of_range P x)"

definition startCalibration :: "Platform \<Rightarrow> Clock \<Rightarrow> VehicleCommand \<Rightarrow> Task \<Rightarrow> Task option" where
  "startCalibration P clk msg t =
     (if externalMode t then
        Some (requestFailed msg (DTR ''cannot calibrate: vehicle is in external mode'') t)
      else
        changeMode P clk VS_CALIBRATION None (if maneuverMode t then reset clk t else t) \<bind>
          (\<lambda>t1. let t2 = t1\<lparr>m_calibration := to_uint16 P (calibration_time (m_args t1))\<rparr>;
                    t3 = dispatch (Calibration (m_calibration t2)) t2;
                    t4 = t3\<lparr>m_switch_time := to_float P (Clock_get clk)\<rparr>
                in Some (requestOK msg (DTR ''calibrating vehicle'') t4)))"

definition startManeuver :: "Platform \<Rightarrow> Clock \<Rightarrow> VehicleCommand \<Rightarrow> Task \<Rightarrow> Task option" where
  "startManeuver P clk cmd t =
     (case vc_maneuver cmd of
        None \<Rightarrow> Some (requestFailed cmd (DTR ''no maneuver specified'') t)
      | Some m \<Rightarrow>
          (let mtype = getName m
           in if externalMode t then
                Some (requestFailed cmd
                        (mtype @ DTR '' maneuver cannot be started in current mode'') t)
              else
                changeMode P clk VS_MANEUVER (Some m) (dispatch StopManeuver t) \<bind>
                  (\<lambda>t1. Some (requestOK cmd (mtype @ DTR '' maneuver started'') t1))))"

definition stopManeuver :: "Platform \<Rightarrow> Clock \<Rightarrow> VehicleCommand \<Rightarrow> Task \<Rightarrow> Task option" where
  "stopManeuver P clk cmd t =
     (if \<not> errorMode t then
        (let t1 = reset clk t
         in if \<not> externalMode t1 \<or> \<not> nonOverridableLoops P t1
            then changeMode P clk VS_SERVICE None t1
            else Some t1)
      else Some t) \<bind>
     (\<lambda>t2. Some (requestOK cmd (DTR ''OK'') t2))"

definition consume_VehicleCommand ::
  "Platform \<Rightarrow> Clock \<Rightarrow> VehicleCommand \<Rightarrow> Task \<Rightarrow> Task option" where
  "consume_VehicleCommand P clk cmd t =
     (if vc_type cmd \<noteq> VC_REQUEST then Some t
      else
        (case vc_command cmd of
           VC_EXEC_MANEUVER \<Rightarrow> startManeuver P clk cmd t
         | VC_STOP_MANEUVER \<Rightarrow> stopManeuver P clk cmd t
         | VC_CALIBRATE \<Rightarrow> startCalibration P clk cmd t
         | VC_OTHER_COMMAND \<Rightarrow> Some t))"

definition task :: "Platform \<Rightarrow> Clock \<Rightarrow> Task \<Rightarrow> Task option" where
  "task P clk t =
     (let t1 = dispatch (VehicleStateMsg (m_vs t)) t
      in if m_switch_time t1 < 0 then Some t1
         else
           (let delta = minus_double P (Clock_get clk) (m_switch_time t1)
            in if calibrationMode t1 \<and> delta > calibration_time (m_args t1) then
                 changeMode P clk VS_SERVICE None t1 \<bind>
                   (\<lambda>t2. Some (t2\<lparr>m_switch_time := - 1\<rparr>))
               else if maneuverMode t1 \<and> delta > c_man_timeout then
                 changeMode P clk VS_SERVICE None (reset clk t1) \<bind>
                   (\<lambda>t2. Some (t2\<lparr>m_switch_time := - 1\<rparr>))
               else Some t1))"

subsection \<open>Runs of the task\<close>

text \<open>
  What the task reacts to: a message of one of the six kinds it is bound to, or its period.
\<close>

datatype Event =
    Abort
  | ControlLoopsEv ControlLoops
  | EntityMonitoringStateEv EntityMonitoringState
  | ManeuverControlStateEv ManeuverControlState
  | PlanControlEv PlanControl
  | VehicleCommandEv VehicleCommand
  | Tick

fun step :: "Platform \<Rightarrow> Clock \<Rightarrow> Event \<Rightarrow> Task \<Rightarrow> Task option" where
  "step P clk Abort t = consume_Abort P clk t"
| "step P clk (ControlLoopsEv msg) t = consume_ControlLoops P clk msg t"
| "step P clk (EntityMonitoringStateEv msg) t = consume_EntityMonitoringState P clk msg t"
| "step P clk (ManeuverControlStateEv msg) t = consume_ManeuverControlState P clk msg t"
| "step P clk (PlanControlEv msg) t = Some (consume_PlanControl P msg t)"
| "step P clk (VehicleCommandEv cmd) t = consume_VehicleCommand P clk cmd t"
| "step P clk Tick t = task P clk t"

text \<open>
  The constructor of \<open>Task\<close> sets \<open>m_switch_time\<close> and \<open>m_in_safe_plan\<close>; nothing has been
  dispatched yet. The arguments come from the configuration, and the messages the task
  keeps are as their own constructors leave them.
\<close>

definition constructed :: "Task \<Rightarrow> bool" where
  "constructed t \<longleftrightarrow> m_switch_time t = - 1 \<and> \<not> m_in_safe_plan t \<and> bus t = []"

text \<open>
  The time stamp a dispatched maneuver carries is a time in seconds since the epoch, not
  negative: the one assumption on the events of a run, made of the maneuver of a request
  \<open>EXEC_MANEUVER\<close>.
\<close>

fun stamped :: "Platform \<Rightarrow> Clock \<Rightarrow> Event \<Rightarrow> bool" where
  "stamped P clk (VehicleCommandEv cmd) =
     (case vc_maneuver cmd of
        None \<Rightarrow> True
      | Some m \<Rightarrow>
          (if vc_type cmd = VC_REQUEST \<and> vc_command cmd = VC_EXEC_MANEUVER
           then 0 \<le> dispatch_stamp P clk m else True))"
| "stamped P clk _ = True"

inductive reachable :: "Platform \<Rightarrow> Task \<Rightarrow> bool" for P :: Platform where
  initial: "constructed t \<Longrightarrow> reachable P (onResourceInitialization clk t)"
| handled: "reachable P t \<Longrightarrow> stamped P clk ev \<Longrightarrow> step P clk ev t = Some t' \<Longrightarrow> reachable P t'"

fun run :: "Platform \<Rightarrow> (Clock \<times> Event) list \<Rightarrow> Task \<Rightarrow> Task option" where
  "run P [] t = Some t"
| "run P ((clk, ev) # rest) t =
     (case step P clk ev t of None \<Rightarrow> None | Some t' \<Rightarrow> run P rest t')"

text \<open>
  The maneuver dispatched last, read from the newest message of the bus backwards. The
  \<open>IdleManeuver\<close> that \<open>reset\<close> sends is a maneuver as well: when it is the newest one, no
  requested maneuver is the last dispatched, and the result is \<open>None\<close>.
\<close>

fun newest_maneuver :: "Msg list \<Rightarrow> Message option" where
  "newest_maneuver [] = None"
| "newest_maneuver (ManeuverMsg m # older) = Some m"
| "newest_maneuver (IdleManeuver d # older) = None"
| "newest_maneuver (x # older) = newest_maneuver older"

definition last_maneuver :: "Msg list \<Rightarrow> Message option" where
  "last_maneuver sent = newest_maneuver (rev sent)"

subsection \<open>A concrete platform and concrete messages\<close>

text \<open>
  One platform to evaluate the handlers on: a split at each occurrence of a one-character
  separator (nothing for the empty text), dispatch stamping the wall clock, and the
  values of the IMC definition for the masks and the id of Teleoperation. Every clock
  reading of the runs below is a multiple of 1/2 below 1000: a \<open>float\<close> holds it, and a
  \<open>double\<close> holds the difference of two of them, so that neither \<open>to_float\<close> nor
  \<open>minus_double\<close> rounds there.
\<close>

fun pieces :: "char \<Rightarrow> string \<Rightarrow> string list" where
  "pieces c [] = [] # []"
| "pieces c (x # xs) =
     (if x = c then [] # pieces c xs
      else (case pieces c xs of [] \<Rightarrow> [x] # [] | p # ps \<Rightarrow> (x # p) # ps))"

definition split_at :: "string \<Rightarrow> string \<Rightarrow> string list" where
  "split_at s sep = (if s = [] then [] else (case sep of [c] \<Rightarrow> pieces c s | _ \<Rightarrow> [s]))"

definition imc5 :: Platform where
  "imc5 = \<lparr>String_split = split_at, Factory_getAbbrevFromId = (\<lambda>i. ''Goto''),
     getSystemId = 30, dispatch_stamp = (\<lambda>clk m. Clock_getSinceEpoch clk),
     CL_TELEOPERATION = 0x1000, CL_NO_OVERRIDE = 0x80000000, VFLG_MANEUVER_DONE = 1,
     FLG_IGNORE_ERRORS = 4, DUNE_IMC_TELEOPERATION = 452, to_float = (\<lambda>x. x),
     minus_double = (\<lambda>x y. x - y), uint16_out_of_range = (\<lambda>x. 0)\<rparr>"

definition at_time :: "real \<Rightarrow> Clock" where
  "at_time x = \<lparr>Clock_get = x, Clock_getSinceEpoch = 1000000 + x\<rparr>"

definition no_command :: VehicleCommand where
  "no_command = \<lparr>vc_source = 0, vc_source_entity = 0, vc_destination = 0xFFFF,
     vc_destination_entity = 0xFF, vc_type = VC_REQUEST, vc_request_id = 0,
     vc_command = VC_EXEC_MANEUVER, vc_maneuver = None, vc_info = []\<rparr>"

definition created :: "string list \<Rightarrow> Task" where
  "created safe = \<lparr>m_switch_time = - 1, m_in_safe_plan = False,
     m_err_timer = \<lparr>top = - 1, last_reset = 0\<rparr>, m_calibration = 0, m_vc_reply = no_command,
     m_vs = \<lparr>op_mode = VS_SERVICE, maneuver_type = 0, maneuver_stime = 0, maneuver_eta = 0,
       error_ents = [], error_count = 0, flags = 0, last_error = [], last_error_time = 0,
       control_loops = 0\<rparr>,
     m_idle = 0, m_args = \<lparr>calibration_time = 10, safe_ents = safe\<rparr>, bus = []\<rparr>"

definition booted :: "string list \<Rightarrow> Task" where
  "booted safe = onResourceInitialization (at_time 0) (created safe)"

definition goto :: Message where
  "goto = \<lparr>getId = 450, getName = ''Goto'', getTimeStamp = 0, payload = ''lat,lon''\<rparr>"

definition exec_goto :: VehicleCommand where
  "exec_goto = \<lparr>vc_source = 30, vc_source_entity = 5, vc_destination = 0xFFFF,
     vc_destination_entity = 0xFF, vc_type = VC_REQUEST, vc_request_id = 7,
     vc_command = VC_EXEC_MANEUVER, vc_maneuver = Some goto, vc_info = []\<rparr>"

definition stop_request :: VehicleCommand where
  "stop_request = \<lparr>vc_source = 30, vc_source_entity = 5, vc_destination = 0xFFFF,
     vc_destination_entity = 0xFF, vc_type = VC_REQUEST, vc_request_id = 8,
     vc_command = VC_STOP_MANEUVER, vc_maneuver = None, vc_info = []\<rparr>"

definition calibrate :: VehicleCommand where
  "calibrate = \<lparr>vc_source = 30, vc_source_entity = 5, vc_destination = 0xFFFF,
     vc_destination_entity = 0xFF, vc_type = VC_REQUEST, vc_request_id = 9,
     vc_command = VC_CALIBRATE, vc_maneuver = None, vc_info = []\<rparr>"

definition entity_error :: "string \<Rightarrow> EntityMonitoringState" where
  "entity_error name = \<lparr>ccount = 1, cnames = name, ecount = 0, enames = [],
     ems_last_error = name @ '': fault'', ems_last_error_time = 1000001\<rparr>"

definition loops :: "EnableEnum \<Rightarrow> 32 word \<Rightarrow> ControlLoops" where
  "loops e m = \<lparr>cl_enable = e, cl_mask = m\<rparr>"

definition maneuver_state :: "StateEnum \<Rightarrow> ManeuverControlState" where
  "maneuver_state st = \<lparr>mcs_source = 30, mcs_timestamp = 1000003, mcs_state = st,
     mcs_eta = 0, mcs_info = ''stuck''\<rparr>"

definition start_safe_plan :: PlanControl where
  "start_safe_plan = \<lparr>pc_type = PC_REQUEST, pc_op = PC_START, pc_flags = 4\<rparr>"

text \<open>The task after a run of events from \<open>booted safe\<close> on the platform \<open>imc5\<close>.\<close>

definition after :: "string list \<Rightarrow> (Clock \<times> Event) list \<Rightarrow> Task" where
  "after safe evs = (case run imc5 evs (booted safe) of None \<Rightarrow> booted safe | Some t \<Rightarrow> t)"

text \<open>
  The invariant of the maneuver fields: outside MANEUVER there is no start time
  (\<open>maneuver_stime = -1\<close>); in MANEUVER the start time is not negative, and
  \<open>maneuver_type\<close> and \<open>maneuver_stime\<close> are the id and the time stamp of the maneuver
  dispatched last.
\<close>

abbreviation maneuver_fields_ok :: "Task \<Rightarrow> bool" where
  "maneuver_fields_ok t \<equiv>
     (op_mode (m_vs t) \<noteq> VS_MANEUVER \<longrightarrow> maneuver_stime (m_vs t) = - 1) \<and>
     (op_mode (m_vs t) = VS_MANEUVER \<longrightarrow>
        0 \<le> maneuver_stime (m_vs t) \<and>
        (\<exists>m. last_maneuver (bus t) = Some m \<and> maneuver_type (m_vs t) = getId m \<and>
             maneuver_stime (m_vs t) = getTimeStamp m))"

section \<open>Properties\<close>

lemmas mode_defs =
  modeIs_def serviceMode_def maneuverMode_def errorMode_def externalMode_def calibrationMode_def

subsection \<open>\<open>changeMode\<close> never dereferences a null maneuver\<close>

text \<open>
  Every call but the one of \<open>startManeuver\<close> asks for a mode other than MANEUVER and
  passes no maneuver; it returns, whatever the state.
\<close>

lemma changeMode_plain:
  "s0 \<noteq> VS_MANEUVER \<Longrightarrow>
   changeMode P clk s0 None t =
     Some (if op_mode (m_vs t) \<noteq> s0 then
             (let vs = (m_vs t)\<lparr>op_mode := (if s0 = VS_SERVICE \<and> entityError P t then VS_ERROR else s0),
                         maneuver_type := 0xFFFF, maneuver_stime := - 1, maneuver_eta := 0xFFFF,
                         flags := flags (m_vs t) AND NOT (VFLG_MANEUVER_DONE P)\<rparr>
              in t\<lparr>m_switch_time := - 1, m_vs := vs, bus := bus t @ [VehicleStateMsg vs]\<rparr>)
           else t\<lparr>m_switch_time := - 1, bus := bus t @ [VehicleStateMsg (m_vs t)]\<rparr>)"
  by (cases s0) (auto simp: changeMode_def mode_defs dispatch_def Let_def)

lemma changeMode_maneuver:
  "changeMode P clk VS_MANEUVER (Some m) t =
     (let sent = m\<lparr>getTimeStamp := dispatch_stamp P clk m\<rparr>;
          vs = (m_vs t)\<lparr>op_mode := VS_MANEUVER, maneuver_stime := dispatch_stamp P clk m,
                  maneuver_type := getId m, maneuver_eta := 0xFFFF, last_error := [],
                  last_error_time := - 1, flags := flags (m_vs t) AND NOT (VFLG_MANEUVER_DONE P)\<rparr>
      in Some (t\<lparr>m_switch_time := - 1, m_vs := vs,
                 bus := bus t @ [ManeuverMsg sent, VehicleStateMsg vs]\<rparr>))"
  by (auto simp: changeMode_def mode_defs dispatch_def Let_def)

subsection \<open>Recording an \<open>EntityMonitoringState\<close>\<close>

text \<open>
  \<open>consume(EntityMonitoringState)\<close> is \<open>record_errors\<close> followed by the checks of the mode,
  and \<open>record_errors\<close> writes four fields of the vehicle state and may restart the error
  timer.
\<close>

lemma consume_EntityMonitoringState_split:
  "consume_EntityMonitoringState P clk msg t =
     (let t6 = record_errors clk msg t
      in if errorMode t6 then
           (if error_count (m_vs t6) = 0 then changeMode P clk VS_SERVICE None t6 else Some t6)
         else if externalMode t6 \<or> maneuverMode t6 then
           (if entityError P t6 \<and> \<not> nonOverridableLoops P t6 \<and> \<not> teleoperationOn P t6
            then changeMode P clk VS_ERROR None (reset clk t6)
            else Some t6)
         else if entityError P t6 \<and> \<not> calibrationMode t6
         then changeMode P clk VS_ERROR None (reset clk t6)
         else Some t6)"
  unfolding consume_EntityMonitoringState_def record_errors_def Let_def by (rule refl)

lemma record_errors_eq:
  "record_errors clk msg t =
     t\<lparr>m_vs := (m_vs t)\<lparr>error_count := ccount msg + ecount msg,
          last_error := (if ccount msg + ecount msg \<noteq> 0 \<and>
                            last_error_time (m_vs t) < ems_last_error_time msg
                         then ems_last_error msg else last_error (m_vs t)),
          last_error_time := (if ccount msg + ecount msg \<noteq> 0 \<and>
                                 last_error_time (m_vs t) < ems_last_error_time msg
                              then ems_last_error_time msg else last_error_time (m_vs t)),
          error_ents := (if ccount msg \<noteq> 0 then cnames msg else []) @
            (if ecount msg \<noteq> 0 then (if ccount msg \<noteq> 0 then '','' else []) @ enames msg
             else [])\<rparr>,
       m_err_timer := (if \<not> (error_count (m_vs t) \<noteq> 0 \<and> ccount msg + ecount msg = 0) \<and>
                          error_count (m_vs t) \<noteq> ccount msg + ecount msg \<and>
                          Counter_overflow clk (m_err_timer t)
                       then Counter_reset clk (m_err_timer t) else m_err_timer t)\<rparr>"
proof -
  define t1 where "t1 = t\<lparr>m_vs := (m_vs t)\<lparr>error_count := ccount msg + ecount msg\<rparr>\<rparr>"
  define t2 where
    "t2 = (if error_count (m_vs t1) \<noteq> 0 \<and> ems_last_error_time msg > last_error_time (m_vs t1)
           then t1\<lparr>m_vs := (m_vs t1)\<lparr>last_error := ems_last_error msg,
                      last_error_time := ems_last_error_time msg\<rparr>\<rparr>
           else t1)"
  define t3 where "t3 = t2\<lparr>m_vs := (m_vs t2)\<lparr>error_ents := []\<rparr>\<rparr>"
  define t4 where
    "t4 = (if ccount msg \<noteq> 0 then t3\<lparr>m_vs := (m_vs t3)\<lparr>error_ents := cnames msg\<rparr>\<rparr> else t3)"
  define t5 where
    "t5 = (if ecount msg \<noteq> 0
           then t4\<lparr>m_vs := (m_vs t4)\<lparr>error_ents := error_ents (m_vs t4) @
                      ((if ccount msg \<noteq> 0 then '','' else []) @ enames msg)\<rparr>\<rparr>
           else t4)"
  define t6 where
    "t6 = (if error_count (m_vs t) \<noteq> 0 \<and> error_count (m_vs t5) = 0 then t5
           else if error_count (m_vs t) \<noteq> error_count (m_vs t5) \<and>
                   Counter_overflow clk (m_err_timer t5)
           then t5\<lparr>m_err_timer := Counter_reset clk (m_err_timer t5)\<rparr>
           else t5)"
  have r: "record_errors clk msg t = t6"
    unfolding record_errors_def Let_def t6_def t5_def t4_def t3_def t2_def t1_def
    by (rule refl)
  have e2: "t2 = t\<lparr>m_vs := (m_vs t)\<lparr>error_count := ccount msg + ecount msg,
          last_error := (if ccount msg + ecount msg \<noteq> 0 \<and>
                            last_error_time (m_vs t) < ems_last_error_time msg
                         then ems_last_error msg else last_error (m_vs t)),
          last_error_time := (if ccount msg + ecount msg \<noteq> 0 \<and>
                                 last_error_time (m_vs t) < ems_last_error_time msg
                              then ems_last_error_time msg else last_error_time (m_vs t))\<rparr>\<rparr>"
    by (simp add: t2_def t1_def)
  have e4: "t4 = t2\<lparr>m_vs := (m_vs t2)\<lparr>error_ents := (if ccount msg \<noteq> 0 then cnames msg else [])\<rparr>\<rparr>"
    by (simp add: t4_def t3_def)
  have e5: "t5 = t2\<lparr>m_vs := (m_vs t2)\<lparr>error_ents := (if ccount msg \<noteq> 0 then cnames msg else []) @
            (if ecount msg \<noteq> 0 then (if ccount msg \<noteq> 0 then '','' else []) @ enames msg
             else [])\<rparr>\<rparr>"
    by (simp add: t5_def e4)
  have c5: "error_count (m_vs t5) = ccount msg + ecount msg" "m_err_timer t5 = m_err_timer t"
    by (simp_all add: e5 e2)
  have e6: "t6 = t5\<lparr>m_err_timer := (if \<not> (error_count (m_vs t) \<noteq> 0 \<and> ccount msg + ecount msg = 0) \<and>
                          error_count (m_vs t) \<noteq> ccount msg + ecount msg \<and>
                          Counter_overflow clk (m_err_timer t)
                       then Counter_reset clk (m_err_timer t) else m_err_timer t)\<rparr>"
  proof -
    have k: "t5\<lparr>m_err_timer := m_err_timer t\<rparr> = t5"
      by (simp add: c5(2) [symmetric])
    show ?thesis
      unfolding t6_def c5 by (simp add: k)
  qed
  show ?thesis
    unfolding r e6 e5 by (simp add: e2)
qed


lemma record_errors_frame:
  "op_mode (m_vs (record_errors clk msg t)) = op_mode (m_vs t)"
  "maneuver_type (m_vs (record_errors clk msg t)) = maneuver_type (m_vs t)"
  "maneuver_stime (m_vs (record_errors clk msg t)) = maneuver_stime (m_vs t)"
  "control_loops (m_vs (record_errors clk msg t)) = control_loops (m_vs t)"
  "error_count (m_vs (record_errors clk msg t)) = ccount msg + ecount msg"
  "m_in_safe_plan (record_errors clk msg t) = m_in_safe_plan t"
  "m_switch_time (record_errors clk msg t) = m_switch_time t"
  "m_args (record_errors clk msg t) = m_args t"
  "bus (record_errors clk msg t) = bus t"
  by (simp_all add: record_errors_eq)

subsection \<open>Every handler returns\<close>

text \<open>
  No handler, and no tick, reaches the dereference of a null maneuver in \<open>changeMode\<close>,
  whatever the state of the task and the message.
\<close>

lemma handlers_return:
  "\<exists>t'. step P clk ev t = Some t'"
proof (cases ev)
  case Abort
  then show ?thesis
    by (simp add: consume_Abort_def changeMode_plain Let_def)
next
  case (ControlLoopsEv msg)
  then show ?thesis
    by (cases "op_mode (m_vs t)")
      (simp_all add: consume_ControlLoops_def onEnabledControlLoops_def
        onDisabledControlLoops_def changeMode_plain Let_def)
next
  case (EntityMonitoringStateEv msg)
  then show ?thesis
    by (simp add: consume_EntityMonitoringState_split changeMode_plain Let_def)
next
  case (ManeuverControlStateEv msg)
  then show ?thesis
    by (cases "mcs_state msg")
      (simp_all add: consume_ManeuverControlState_def changeMode_plain Let_def)
next
  case (PlanControlEv msg)
  then show ?thesis by simp
next
  case (VehicleCommandEv cmd)
  then show ?thesis
    by (cases "vc_command cmd"; cases "vc_maneuver cmd")
      (simp_all add: consume_VehicleCommand_def startManeuver_def stopManeuver_def
        startCalibration_def changeMode_plain changeMode_maneuver Let_def)
next
  case Tick
  then show ?thesis
    by (simp add: task_def changeMode_plain Let_def)
qed

subsection \<open>Replies are ignored\<close>

text \<open>
  C9. A \<open>VehicleCommand\<close> whose type is not \<open>VC_REQUEST\<close> (a SUCCESS, FAILURE or
  IN_PROGRESS reply, the supervisor's own included) leaves the whole task as it is: the
  vehicle state, the timers, the flags, and the bus, to which nothing is dispatched.
\<close>

theorem reply_is_ignored:
  "vc_type cmd \<noteq> VC_REQUEST \<Longrightarrow> consume_VehicleCommand P clk cmd t = Some t"
  by (simp add: consume_VehicleCommand_def)

theorem reply_is_ignored_witness:
  "vc_type (exec_goto\<lparr>vc_type := VC_SUCCESS\<rparr>) \<noteq> VC_REQUEST \<and>
   consume_VehicleCommand imc5 (at_time 1) (exec_goto\<lparr>vc_type := VC_SUCCESS\<rparr>) (booted []) =
     Some (booted [])"
  using reply_is_ignored [of "exec_goto\<lparr>vc_type := VC_SUCCESS\<rparr>" imc5 "at_time 1" "booted []"]
  by (simp add: exec_goto_def)

subsection \<open>Entity errors\<close>

lemma safe_loop_iff: "safe_loop ent safe \<longleftrightarrow> ent \<in> set safe"
  by (induction safe) auto

lemma ents_loop_iff: "ents_loop ents safe \<longleftrightarrow> (\<exists>e \<in> set ents. e \<in> set safe)"
  by (induction ents) (auto simp: safe_loop_iff)

text \<open>
  C4. \<open>entityError()\<close> is true if and only if \<open>error_count\<close> is not zero and the error counts
  for the current plan: in a safe plan with a whitelist \<open>safe_ents\<close> that is not empty, when
  one of the names that \<open>String::split\<close> takes from \<open>error_ents\<close> at \<open>","\<close> is a member of
  \<open>safe_ents\<close>; in every other case, always.
\<close>

theorem entityError_iff:
  "entityError P t \<longleftrightarrow>
     error_count (m_vs t) \<noteq> 0 \<and>
     (if m_in_safe_plan t \<and> safe_ents (m_args t) \<noteq> []
      then \<exists>e \<in> set (String_split P (error_ents (m_vs t)) '',''). e \<in> set (safe_ents (m_args t))
      else True)"
  by (simp add: entityError_def ents_loop_iff)

text \<open>
  The fourth scenario of the spec: with \<open>safe_ents = ["GPS"]\<close> and a safe plan started,
  an error of IMU is not an entity error and the mode stays SERVICE; an error of GPS is
  one, and the mode becomes ERROR.
\<close>

theorem entityError_iff_witness:
  "\<not> entityError imc5
       (after [''GPS''] [(at_time 1, PlanControlEv start_safe_plan),
          (at_time 2, EntityMonitoringStateEv (entity_error ''IMU''))]) \<and>
   op_mode (m_vs (after [''GPS''] [(at_time 1, PlanControlEv start_safe_plan),
          (at_time 2, EntityMonitoringStateEv (entity_error ''IMU''))])) = VS_SERVICE \<and>
   entityError imc5
       ((after [''GPS''] [(at_time 1, PlanControlEv start_safe_plan)])
          \<lparr>m_vs := (m_vs (booted [''GPS'']))\<lparr>error_count := 1, error_ents := ''GPS''\<rparr>\<rparr>) \<and>
   op_mode (m_vs (after [''GPS''] [(at_time 1, PlanControlEv start_safe_plan),
          (at_time 2, EntityMonitoringStateEv (entity_error ''IMU'')),
          (at_time 3, EntityMonitoringStateEv (entity_error ''GPS''))])) = VS_ERROR"
  using entityError_iff [of imc5 "after [''GPS''] [(at_time 1, PlanControlEv start_safe_plan),
          (at_time 2, EntityMonitoringStateEv (entity_error ''IMU''))]"]
    entityError_iff [of imc5 "(after [''GPS''] [(at_time 1, PlanControlEv start_safe_plan)])
          \<lparr>m_vs := (m_vs (booted [''GPS'']))\<lparr>error_count := 1, error_ents := ''GPS''\<rparr>\<rparr>"]
  by code_simp

subsection \<open>Control loops\<close>

lemma word_or_and_not: "(v OR m) AND NOT m = v AND NOT (m :: 'a::len word)"
  by (auto simp: bit_eq_iff bit_simps) 

lemma word_and_not_eq_iff: "(v AND NOT m = v) \<longleftrightarrow> (v AND m = (0 :: 'a::len word))"
  by (auto simp: bit_eq_iff bit_simps)

lemma loops_after_enable_disable:
  "\<exists>t1 t2. consume_ControlLoops P clk1 \<lparr>cl_enable = CL_ENABLE, cl_mask = m\<rparr> t = Some t1 \<and>
     consume_ControlLoops P clk2 \<lparr>cl_enable = CL_DISABLE, cl_mask = m\<rparr> t1 = Some t2 \<and>
     control_loops (m_vs t2) = control_loops (m_vs t) AND NOT m"
  by (cases "op_mode (m_vs t)")
   (auto simp: consume_ControlLoops_def onEnabledControlLoops_def onDisabledControlLoops_def
      changeMode_plain reset_def dispatch_def mode_defs Let_def word_or_and_not)

text \<open>
  C2, as amended. For every prior value \<open>v\<close> of \<open>control_loops\<close> and every mask \<open>m\<close>,
  consuming \<open>ControlLoops{CL_ENABLE, m}\<close> and then \<open>ControlLoops{CL_DISABLE, m}\<close> leaves
  \<open>control_loops\<close> at \<open>v\<close> with the bits of \<open>m\<close> cleared: the prior value is restored exactly
  when \<open>v\<close> and \<open>m\<close> have no bit in common. Both handlers return.
\<close>

theorem enable_then_disable:
  "\<exists>t1 t2. consume_ControlLoops P clk1 \<lparr>cl_enable = CL_ENABLE, cl_mask = m\<rparr> t = Some t1 \<and>
     consume_ControlLoops P clk2 \<lparr>cl_enable = CL_DISABLE, cl_mask = m\<rparr> t1 = Some t2 \<and>
     control_loops (m_vs t2) = control_loops (m_vs t) AND NOT m \<and>
     (control_loops (m_vs t2) = control_loops (m_vs t) \<longleftrightarrow> control_loops (m_vs t) AND m = 0)"
proof -
  obtain t1 t2 where
    h: "consume_ControlLoops P clk1 \<lparr>cl_enable = CL_ENABLE, cl_mask = m\<rparr> t = Some t1"
       "consume_ControlLoops P clk2 \<lparr>cl_enable = CL_DISABLE, cl_mask = m\<rparr> t1 = Some t2"
       "control_loops (m_vs t2) = control_loops (m_vs t) AND NOT m"
    using loops_after_enable_disable by blast
  from h(3) have "control_loops (m_vs t2) = control_loops (m_vs t) \<longleftrightarrow> control_loops (m_vs t) AND m = 0"
    by (simp add: word_and_not_eq_iff)
  with h show ?thesis by blast
qed

theorem enable_then_disable_witness:
  "control_loops (m_vs (after [] [(at_time 1, ControlLoopsEv (loops CL_ENABLE 4))])) = 4 \<and>
   control_loops (m_vs (after [] [(at_time 1, ControlLoopsEv (loops CL_ENABLE 4)),
      (at_time 2, ControlLoopsEv (loops CL_ENABLE 3)),
      (at_time 3, ControlLoopsEv (loops CL_DISABLE 3))])) = 4"
proof -
  have a: "consume_ControlLoops imc5 (at_time 2) \<lparr>cl_enable = CL_ENABLE, cl_mask = 3\<rparr>
             (after [] [(at_time 1, ControlLoopsEv (loops CL_ENABLE 4))]) =
           Some (after [] [(at_time 1, ControlLoopsEv (loops CL_ENABLE 4)),
             (at_time 2, ControlLoopsEv (loops CL_ENABLE 3))])"
    by code_simp
  have b: "consume_ControlLoops imc5 (at_time 3) \<lparr>cl_enable = CL_DISABLE, cl_mask = 3\<rparr>
             (after [] [(at_time 1, ControlLoopsEv (loops CL_ENABLE 4)),
               (at_time 2, ControlLoopsEv (loops CL_ENABLE 3))]) =
           Some (after [] [(at_time 1, ControlLoopsEv (loops CL_ENABLE 4)),
             (at_time 2, ControlLoopsEv (loops CL_ENABLE 3)),
             (at_time 3, ControlLoopsEv (loops CL_DISABLE 3))])"
    by code_simp
  have c: "control_loops (m_vs (after [] [(at_time 1, ControlLoopsEv (loops CL_ENABLE 4))])) = 4"
    by code_simp
  show ?thesis
    using enable_then_disable [of imc5 "at_time 2" 3
        "after [] [(at_time 1, ControlLoopsEv (loops CL_ENABLE 4))]" "at_time 3"] a b c
    by simp
qed

text \<open>
  C2 as the spec states it fails when a loop of the mask was enabled before: with loop 1
  enabled (the supervisor is in EXTERNAL), enabling and disabling loop 1 leaves no loop.
\<close>

theorem enable_then_disable_counterexample:
  "control_loops (m_vs (after [] [(at_time 1, ControlLoopsEv (loops CL_ENABLE 1))])) = 1 \<and>
   run imc5 [(at_time 2, ControlLoopsEv (loops CL_ENABLE 1)),
             (at_time 3, ControlLoopsEv (loops CL_DISABLE 1))]
       (after [] [(at_time 1, ControlLoopsEv (loops CL_ENABLE 1))]) =
     Some (after [] [(at_time 1, ControlLoopsEv (loops CL_ENABLE 1)),
      (at_time 2, ControlLoopsEv (loops CL_ENABLE 1)),
      (at_time 3, ControlLoopsEv (loops CL_DISABLE 1))]) \<and>
   control_loops (m_vs (after [] [(at_time 1, ControlLoopsEv (loops CL_ENABLE 1)),
      (at_time 2, ControlLoopsEv (loops CL_ENABLE 1)),
      (at_time 3, ControlLoopsEv (loops CL_DISABLE 1))])) \<noteq> 1"
  by code_simp

subsection \<open>Requests to execute a maneuver\<close>

text \<open>
  C1, as amended. A request \<open>EXEC_MANEUVER\<close> that carries a maneuver is answered to its
  requester. It is accepted exactly when the mode is not EXTERNAL (in SERVICE, CALIBRATION,
  ERROR and MANEUVER): the reply is SUCCESS, \<open>StopManeuver\<close> and then the requested maneuver
  are dispatched, followed by the vehicle state and the reply, and the mode is MANEUVER.
  In EXTERNAL it is rejected: the reply is FAILURE, nothing else is dispatched and the
  vehicle state, \<open>op_mode\<close> included, is unchanged.
\<close>

theorem exec_maneuver:
  assumes "vc_type cmd = VC_REQUEST" and "vc_command cmd = VC_EXEC_MANEUVER"
    and "vc_maneuver cmd = Some m"
  shows "\<exists>t'. consume_VehicleCommand P clk cmd t = Some t' \<and>
    vc_destination (m_vc_reply t') = vc_source cmd \<and>
    vc_destination_entity (m_vc_reply t') = vc_source_entity cmd \<and>
    vc_request_id (m_vc_reply t') = vc_request_id cmd \<and>
    (if op_mode (m_vs t) = VS_EXTERNAL then
       vc_type (m_vc_reply t') = VC_FAILURE \<and> m_vs t' = m_vs t \<and>
       bus t' = bus t @ [VehicleCommandMsg (m_vc_reply t')]
     else
       vc_type (m_vc_reply t') = VC_SUCCESS \<and> op_mode (m_vs t') = VS_MANEUVER \<and>
       bus t' = bus t @ [StopManeuver, ManeuverMsg (m\<lparr>getTimeStamp := dispatch_stamp P clk m\<rparr>),
                  VehicleStateMsg (m_vs t'), VehicleCommandMsg (m_vc_reply t')])"
  using assms
  by (simp add: consume_VehicleCommand_def startManeuver_def changeMode_maneuver mode_defs
      requestFailed_def requestOK_def answer_def dispatch_def Let_def)

theorem exec_maneuver_witness:
  "vc_type exec_goto = VC_REQUEST \<and> vc_command exec_goto = VC_EXEC_MANEUVER \<and>
   vc_maneuver exec_goto = Some goto \<and>
   op_mode (m_vs (after [] [(at_time 1, ControlLoopsEv (loops CL_ENABLE 1))])) = VS_EXTERNAL \<and>
   op_mode (m_vs (after [] [(at_time 1, ControlLoopsEv (loops CL_ENABLE 1)),
       (at_time 2, VehicleCommandEv exec_goto)])) = VS_EXTERNAL \<and>
   vc_type (m_vc_reply (after [] [(at_time 1, ControlLoopsEv (loops CL_ENABLE 1)),
       (at_time 2, VehicleCommandEv exec_goto)])) = VC_FAILURE \<and>
   op_mode (m_vs (booted [])) = VS_SERVICE \<and>
   op_mode (m_vs (after [] [(at_time 2, VehicleCommandEv exec_goto)])) = VS_MANEUVER \<and>
   vc_type (m_vc_reply (after [] [(at_time 2, VehicleCommandEv exec_goto)])) = VC_SUCCESS"
proof -
  have h: "vc_type exec_goto = VC_REQUEST" "vc_command exec_goto = VC_EXEC_MANEUVER"
    "vc_maneuver exec_goto = Some goto"
    by (simp_all add: exec_goto_def)
  have a: "consume_VehicleCommand imc5 (at_time 2) exec_goto
             (after [] [(at_time 1, ControlLoopsEv (loops CL_ENABLE 1))]) =
           Some (after [] [(at_time 1, ControlLoopsEv (loops CL_ENABLE 1)),
             (at_time 2, VehicleCommandEv exec_goto)])"
    by code_simp
  have b: "consume_VehicleCommand imc5 (at_time 2) exec_goto (booted []) =
           Some (after [] [(at_time 2, VehicleCommandEv exec_goto)])"
    by code_simp
  have c: "op_mode (m_vs (after [] [(at_time 1, ControlLoopsEv (loops CL_ENABLE 1))])) = VS_EXTERNAL"
    "op_mode (m_vs (booted [])) = VS_SERVICE"
    by code_simp+
  show ?thesis
    using exec_maneuver [OF h, of imc5 "at_time 2"
        "after [] [(at_time 1, ControlLoopsEv (loops CL_ENABLE 1))]"]
      exec_maneuver [OF h, of imc5 "at_time 2" "booted []"] h a b c
    by simp
qed

text \<open>
  C1 as the spec states it (accepted exactly in SERVICE and MANEUVER) fails in ERROR: after
  an error of GPS has put the supervisor in ERROR, the request is accepted.
\<close>

theorem exec_maneuver_counterexample:
  "op_mode (m_vs (after [] [(at_time 1, EntityMonitoringStateEv (entity_error ''GPS''))])) = VS_ERROR \<and>
   consume_VehicleCommand imc5 (at_time 2) exec_goto
       (after [] [(at_time 1, EntityMonitoringStateEv (entity_error ''GPS''))]) =
     Some (after [] [(at_time 1, EntityMonitoringStateEv (entity_error ''GPS'')),
                     (at_time 2, VehicleCommandEv exec_goto)]) \<and>
   op_mode (m_vs (after [] [(at_time 1, EntityMonitoringStateEv (entity_error ''GPS'')),
                     (at_time 2, VehicleCommandEv exec_goto)])) = VS_MANEUVER \<and>
   vc_type (m_vc_reply (after [] [(at_time 1, EntityMonitoringStateEv (entity_error ''GPS'')),
                     (at_time 2, VehicleCommandEv exec_goto)])) = VC_SUCCESS \<and>
   bus (after [] [(at_time 1, EntityMonitoringStateEv (entity_error ''GPS'')),
                     (at_time 2, VehicleCommandEv exec_goto)]) =
     bus (after [] [(at_time 1, EntityMonitoringStateEv (entity_error ''GPS''))]) @
       [StopManeuver, ManeuverMsg (goto\<lparr>getTimeStamp := 1000002\<rparr>),
        VehicleStateMsg (m_vs (after [] [(at_time 1, EntityMonitoringStateEv (entity_error ''GPS'')),
                     (at_time 2, VehicleCommandEv exec_goto)])),
        VehicleCommandMsg (m_vc_reply (after [] [(at_time 1, EntityMonitoringStateEv (entity_error ''GPS'')),
                     (at_time 2, VehicleCommandEv exec_goto)]))]"
  by code_simp

subsection \<open>Requests to stop the maneuver\<close>

text \<open>
  C3, as amended. When a request \<open>STOP_MANEUVER\<close> has been processed, a second, identical
  one is answered SUCCESS and leaves the vehicle state, \<open>m_in_safe_plan\<close>, the switch timer
  and the kept reply as they are. If the first one left the supervisor in ERROR, only the
  reply is dispatched. Otherwise \<open>reset\<close> and \<open>changeMode\<close> run again: \<open>IdleManeuver\<close> and
  the vehicle state are dispatched before the reply, and the error timer is restarted.
\<close>

theorem second_stop_maneuver:
  assumes "vc_type cmd = VC_REQUEST" and "vc_command cmd = VC_STOP_MANEUVER"
  shows "\<exists>t1 t2. consume_VehicleCommand P clk1 cmd t = Some t1 \<and>
     consume_VehicleCommand P clk2 cmd t1 = Some t2 \<and>
     vc_type (m_vc_reply t2) = VC_SUCCESS \<and>
     t2 = (if op_mode (m_vs t1) = VS_ERROR
           then t1\<lparr>bus := bus t1 @ [VehicleCommandMsg (m_vc_reply t1)]\<rparr>
           else t1\<lparr>m_err_timer := Counter_reset clk2 (m_err_timer t1),
                  bus := bus t1 @ [IdleManeuver (m_idle t1), VehicleStateMsg (m_vs t1),
                                   VehicleCommandMsg (m_vc_reply t1)]\<rparr>)"
  using assms
  by (cases "op_mode (m_vs t)")
    (auto simp: consume_VehicleCommand_def stopManeuver_def changeMode_plain mode_defs
      requestOK_def answer_def dispatch_def reset_def Let_def nonOverridableLoops_def
      Counter_reset_def)

theorem second_stop_maneuver_witness:
  "vc_type stop_request = VC_REQUEST \<and> vc_command stop_request = VC_STOP_MANEUVER \<and>
   op_mode (m_vs (after [] [(at_time 1, VehicleCommandEv exec_goto),
      (at_time 2, VehicleCommandEv stop_request)])) = VS_SERVICE \<and>
   vc_type (m_vc_reply (after [] [(at_time 1, VehicleCommandEv exec_goto),
      (at_time 2, VehicleCommandEv stop_request), (at_time 3, VehicleCommandEv stop_request)])) =
     VC_SUCCESS \<and>
   m_vs (after [] [(at_time 1, VehicleCommandEv exec_goto),
      (at_time 2, VehicleCommandEv stop_request), (at_time 3, VehicleCommandEv stop_request)]) =
     m_vs (after [] [(at_time 1, VehicleCommandEv exec_goto),
      (at_time 2, VehicleCommandEv stop_request)])"
proof -
  let ?t = "after [] [(at_time 1, VehicleCommandEv exec_goto)]"
  let ?t1 = "after [] [(at_time 1, VehicleCommandEv exec_goto),
      (at_time 2, VehicleCommandEv stop_request)]"
  let ?t2 = "after [] [(at_time 1, VehicleCommandEv exec_goto),
      (at_time 2, VehicleCommandEv stop_request), (at_time 3, VehicleCommandEv stop_request)]"
  have h: "vc_type stop_request = VC_REQUEST" "vc_command stop_request = VC_STOP_MANEUVER"
    by (simp_all add: stop_request_def)
  have a: "consume_VehicleCommand imc5 (at_time 2) stop_request ?t = Some ?t1"
    "consume_VehicleCommand imc5 (at_time 3) stop_request ?t1 = Some ?t2"
    by code_simp+
  have c: "op_mode (m_vs ?t1) = VS_SERVICE"
    by code_simp
  from second_stop_maneuver [OF h, of imc5 "at_time 2" ?t "at_time 3"] a c
  have "vc_type (m_vc_reply ?t2) = VC_SUCCESS \<and> m_vs ?t2 = m_vs ?t1"
    by auto
  with h c show ?thesis by simp
qed

text \<open>
  C3 as the spec states it (nothing but the reply is dispatched, no state changes) fails
  in SERVICE: the second request dispatches \<open>IdleManeuver\<close> and the vehicle state before
  the reply, and restarts the error timer.
\<close>

theorem second_stop_maneuver_counterexample:
  "consume_VehicleCommand imc5 (at_time 2) stop_request
       (after [] [(at_time 1, VehicleCommandEv stop_request)]) =
     Some (after [] [(at_time 1, VehicleCommandEv stop_request),
       (at_time 2, VehicleCommandEv stop_request)]) \<and>
   bus (after [] [(at_time 1, VehicleCommandEv stop_request),
       (at_time 2, VehicleCommandEv stop_request)]) =
     bus (after [] [(at_time 1, VehicleCommandEv stop_request)]) @
       [IdleManeuver 0, VehicleStateMsg (m_vs (after [] [(at_time 1, VehicleCommandEv stop_request)])),
        VehicleCommandMsg (m_vc_reply (after [] [(at_time 1, VehicleCommandEv stop_request),
          (at_time 2, VehicleCommandEv stop_request)]))] \<and>
   bus (after [] [(at_time 1, VehicleCommandEv stop_request),
       (at_time 2, VehicleCommandEv stop_request)]) \<noteq>
     bus (after [] [(at_time 1, VehicleCommandEv stop_request)]) @
       [VehicleCommandMsg (m_vc_reply (after [] [(at_time 1, VehicleCommandEv stop_request),
          (at_time 2, VehicleCommandEv stop_request)]))] \<and>
   m_err_timer (after [] [(at_time 1, VehicleCommandEv stop_request),
       (at_time 2, VehicleCommandEv stop_request)]) \<noteq>
     m_err_timer (after [] [(at_time 1, VehicleCommandEv stop_request)])"
  by code_simp

subsection \<open>Abort\<close>

text \<open>
  C5. \<open>Abort\<close> sets \<open>last_error\<close> to "got abort request". In MANEUVER it dispatches
  \<open>StopManeuver\<close> and \<open>IdleManeuver\<close> (and the new vehicle state) and the mode becomes
  SERVICE, or ERROR when entities are in error: \<open>reset\<close> has ended the safe plan, so every
  entity error counts. In ERROR the supervisor stays in ERROR and dispatches nothing. In
  the other modes \<open>IdleManeuver\<close> and the vehicle state are dispatched, and the mode becomes
  SERVICE, or ERROR when entities are in error and the mode was not SERVICE already.
\<close>

theorem abort_request:
  "\<exists>t'. consume_Abort P clk t = Some t' \<and>
     last_error (m_vs t') = ''got abort request'' \<and>
     (if op_mode (m_vs t) = VS_ERROR then op_mode (m_vs t') = VS_ERROR \<and> bus t' = bus t
      else if op_mode (m_vs t) = VS_MANEUVER then
        op_mode (m_vs t') = (if error_count (m_vs t) \<noteq> 0 then VS_ERROR else VS_SERVICE) \<and>
        bus t' = bus t @ [StopManeuver, IdleManeuver (m_idle t), VehicleStateMsg (m_vs t')]
      else
        op_mode (m_vs t') = (if error_count (m_vs t) \<noteq> 0 \<and> op_mode (m_vs t) \<noteq> VS_SERVICE
                             then VS_ERROR else VS_SERVICE) \<and>
        bus t' = bus t @ [IdleManeuver (m_idle t), VehicleStateMsg (m_vs t')])"
  by (cases "op_mode (m_vs t)")
    (auto simp: consume_Abort_def changeMode_plain mode_defs dispatch_def reset_def Let_def
      nonOverridableLoops_def entityError_def DTR_def)

theorem abort_request_witness:
  "op_mode (m_vs (after [] [(at_time 1, VehicleCommandEv exec_goto)])) = VS_MANEUVER \<and>
   error_count (m_vs (after [] [(at_time 1, VehicleCommandEv exec_goto)])) = 0 \<and>
   op_mode (m_vs (after [] [(at_time 1, VehicleCommandEv exec_goto), (at_time 2, Abort)])) =
     VS_SERVICE \<and>
   last_error (m_vs (after [] [(at_time 1, VehicleCommandEv exec_goto), (at_time 2, Abort)])) =
     ''got abort request'' \<and>
   bus (after [] [(at_time 1, VehicleCommandEv exec_goto), (at_time 2, Abort)]) =
     bus (after [] [(at_time 1, VehicleCommandEv exec_goto)]) @
       [StopManeuver, IdleManeuver 0,
        VehicleStateMsg (m_vs (after [] [(at_time 1, VehicleCommandEv exec_goto),
          (at_time 2, Abort)]))]"
proof -
  let ?t = "after [] [(at_time 1, VehicleCommandEv exec_goto)]"
  have a: "consume_Abort imc5 (at_time 2) ?t =
      Some (after [] [(at_time 1, VehicleCommandEv exec_goto), (at_time 2, Abort)])"
    by code_simp
  have c: "op_mode (m_vs ?t) = VS_MANEUVER" "error_count (m_vs ?t) = 0" "m_idle ?t = 0"
    by code_simp+
  from abort_request [of imc5 "at_time 2" ?t] a c show ?thesis
    by simp
qed

subsection \<open>Entity errors during calibration\<close>

lemma ems_in_calibration:
  assumes "op_mode (m_vs t) = VS_CALIBRATION"
  shows "\<exists>t'. consume_EntityMonitoringState P clk msg t = Some t' \<and>
     op_mode (m_vs t') = VS_CALIBRATION \<and>
     error_count (m_vs t') = ccount msg + ecount msg \<and>
     error_ents (m_vs t') =
       (if ccount msg \<noteq> 0 then cnames msg else []) @
       (if ecount msg \<noteq> 0 then (if ccount msg \<noteq> 0 then '','' else []) @ enames msg else []) \<and>
     last_error (m_vs t') =
       (if ccount msg + ecount msg \<noteq> 0 \<and> last_error_time (m_vs t) < ems_last_error_time msg
        then ems_last_error msg else last_error (m_vs t)) \<and>
     m_switch_time t' = m_switch_time t \<and> m_args t' = m_args t \<and> bus t' = bus t"
  using assms
  by (simp add: consume_EntityMonitoringState_split mode_defs Let_def record_errors_eq)

lemma calibration_over:
  assumes "op_mode (m_vs t) = VS_CALIBRATION" and "0 \<le> m_switch_time t"
    and "calibration_time (m_args t) < minus_double P (Clock_get clk) (m_switch_time t)"
  shows "\<exists>t'. task P clk t = Some t' \<and>
     op_mode (m_vs t') = (if entityError P t then VS_ERROR else VS_SERVICE)"
  using assms
  by (simp add: task_def mode_defs Let_def dispatch_def changeMode_plain entityError_def)

lemma calibration_running:
  assumes "op_mode (m_vs t) = VS_CALIBRATION"
    and "minus_double P (Clock_get clk) (m_switch_time t) \<le> calibration_time (m_args t)"
  shows "task P clk t = Some (dispatch (VehicleStateMsg (m_vs t)) t)"
  using assms
  by (simp add: task_def mode_defs Let_def dispatch_def)

text \<open>
  C6, as amended. In CALIBRATION an \<open>EntityMonitoringState\<close> is recorded: \<open>error_count\<close>
  becomes the sum of its two counts and \<open>error_ents\<close> the names it lists; \<open>last_error\<close>
  becomes its last error when that one is newer than the one kept and the sum of the counts
  is not zero, and is kept otherwise. The mode, the switch timer and the bus are unchanged.
  A tick at which \<open>delta\<close>, the clock minus \<open>m_switch_time\<close> as \<open>task\<close> computes it, is not
  above the calibration time only emits the vehicle state. On a tick at which the timer is
  running and \<open>delta\<close> is above the calibration time, with an entity error pending, the
  change to SERVICE that the tick asks for ends in ERROR.
\<close>

theorem entity_error_in_calibration:
  assumes "op_mode (m_vs t) = VS_CALIBRATION"
  shows "\<exists>t'. consume_EntityMonitoringState P clk msg t = Some t' \<and>
     op_mode (m_vs t') = VS_CALIBRATION \<and>
     error_count (m_vs t') = ccount msg + ecount msg \<and>
     error_ents (m_vs t') =
       (if ccount msg \<noteq> 0 then cnames msg else []) @
       (if ecount msg \<noteq> 0 then (if ccount msg \<noteq> 0 then '','' else []) @ enames msg else []) \<and>
     last_error (m_vs t') =
       (if ccount msg + ecount msg \<noteq> 0 \<and> last_error_time (m_vs t) < ems_last_error_time msg
        then ems_last_error msg else last_error (m_vs t)) \<and>
     m_switch_time t' = m_switch_time t \<and> bus t' = bus t \<and>
     (\<forall>clk'. minus_double P (Clock_get clk') (m_switch_time t) \<le> calibration_time (m_args t) \<longrightarrow>
        task P clk' t' = Some (dispatch (VehicleStateMsg (m_vs t')) t')) \<and>
     (\<forall>clk'. entityError P t' \<and> 0 \<le> m_switch_time t \<and>
        calibration_time (m_args t) < minus_double P (Clock_get clk') (m_switch_time t) \<longrightarrow>
        (\<exists>t''. task P clk' t' = Some t'' \<and> op_mode (m_vs t'') = VS_ERROR))"
proof -
  obtain t' where e: "consume_EntityMonitoringState P clk msg t = Some t'"
    and p: "op_mode (m_vs t') = VS_CALIBRATION"
      "error_count (m_vs t') = ccount msg + ecount msg"
      "error_ents (m_vs t') =
       (if ccount msg \<noteq> 0 then cnames msg else []) @
       (if ecount msg \<noteq> 0 then (if ccount msg \<noteq> 0 then '','' else []) @ enames msg else [])"
      "last_error (m_vs t') =
       (if ccount msg + ecount msg \<noteq> 0 \<and> last_error_time (m_vs t) < ems_last_error_time msg
        then ems_last_error msg else last_error (m_vs t))"
      "m_switch_time t' = m_switch_time t" "m_args t' = m_args t" "bus t' = bus t"
    using ems_in_calibration [OF assms] by blast
  have running: "task P clk' t' = Some (dispatch (VehicleStateMsg (m_vs t')) t')"
    if "minus_double P (Clock_get clk') (m_switch_time t) \<le> calibration_time (m_args t)" for clk'
    using calibration_running [of t' P clk'] p that by simp
  have over: "\<exists>t''. task P clk' t' = Some t'' \<and> op_mode (m_vs t'') = VS_ERROR"
    if "entityError P t'" "0 \<le> m_switch_time t"
      "calibration_time (m_args t) < minus_double P (Clock_get clk') (m_switch_time t)" for clk'
    using calibration_over [of t' P clk'] p that by simp
  from e p running over show ?thesis by blast
qed

theorem entity_error_in_calibration_witness:
  "op_mode (m_vs (after [] [(at_time 1, VehicleCommandEv calibrate)])) = VS_CALIBRATION \<and>
   op_mode (m_vs (after [] [(at_time 1, VehicleCommandEv calibrate),
      (at_time 2, EntityMonitoringStateEv (entity_error ''GPS''))])) = VS_CALIBRATION \<and>
   error_count (m_vs (after [] [(at_time 1, VehicleCommandEv calibrate),
      (at_time 2, EntityMonitoringStateEv (entity_error ''GPS''))])) = 1 \<and>
   error_ents (m_vs (after [] [(at_time 1, VehicleCommandEv calibrate),
      (at_time 2, EntityMonitoringStateEv (entity_error ''GPS''))])) = ''GPS'' \<and>
   last_error (m_vs (after [] [(at_time 1, VehicleCommandEv calibrate),
      (at_time 2, EntityMonitoringStateEv (entity_error ''GPS''))])) = ''GPS: fault'' \<and>
   entityError imc5 (after [] [(at_time 1, VehicleCommandEv calibrate),
      (at_time 2, EntityMonitoringStateEv (entity_error ''GPS''))]) \<and>
   0 \<le> m_switch_time (after [] [(at_time 1, VehicleCommandEv calibrate)]) \<and>
   calibration_time (m_args (after [] [(at_time 1, VehicleCommandEv calibrate)])) <
     minus_double imc5 (Clock_get (at_time 12))
       (m_switch_time (after [] [(at_time 1, VehicleCommandEv calibrate)])) \<and>
   minus_double imc5 (Clock_get (at_time 5))
       (m_switch_time (after [] [(at_time 1, VehicleCommandEv calibrate)])) \<le>
     calibration_time (m_args (after [] [(at_time 1, VehicleCommandEv calibrate)])) \<and>
   op_mode (m_vs (after [] [(at_time 1, VehicleCommandEv calibrate),
      (at_time 2, EntityMonitoringStateEv (entity_error ''GPS'')), (at_time 5, Tick)])) =
     VS_CALIBRATION \<and>
   op_mode (m_vs (after [] [(at_time 1, VehicleCommandEv calibrate),
      (at_time 2, EntityMonitoringStateEv (entity_error ''GPS'')), (at_time 12, Tick)])) =
     VS_ERROR"
proof -
  let ?t = "after [] [(at_time 1, VehicleCommandEv calibrate)]"
  let ?t' = "after [] [(at_time 1, VehicleCommandEv calibrate),
      (at_time 2, EntityMonitoringStateEv (entity_error ''GPS''))]"
  have h: "op_mode (m_vs ?t) = VS_CALIBRATION"
    by code_simp
  have a: "consume_EntityMonitoringState imc5 (at_time 2) (entity_error ''GPS'') ?t = Some ?t'"
    by code_simp
  have b: "task imc5 (at_time 5) ?t' = Some (after [] [(at_time 1, VehicleCommandEv calibrate),
      (at_time 2, EntityMonitoringStateEv (entity_error ''GPS'')), (at_time 5, Tick)])"
    "task imc5 (at_time 12) ?t' = Some (after [] [(at_time 1, VehicleCommandEv calibrate),
      (at_time 2, EntityMonitoringStateEv (entity_error ''GPS'')), (at_time 12, Tick)])"
    by code_simp+
  have c: "entityError imc5 ?t'" "0 \<le> m_switch_time ?t"
    "calibration_time (m_args ?t) < minus_double imc5 (Clock_get (at_time 12)) (m_switch_time ?t)"
    "minus_double imc5 (Clock_get (at_time 5)) (m_switch_time ?t) \<le> calibration_time (m_args ?t)"
    by code_simp+
  have d: "ccount (entity_error ''GPS'') = 1" "ecount (entity_error ''GPS'') = 0"
    "cnames (entity_error ''GPS'') = ''GPS''" "ems_last_error (entity_error ''GPS'') = ''GPS: fault''"
    "ems_last_error_time (entity_error ''GPS'') = 1000001" "last_error_time (m_vs ?t) = - 1"
    by code_simp+
  from entity_error_in_calibration [OF h, of imc5 "at_time 2" "entity_error ''GPS''"] a
  have e: "op_mode (m_vs ?t') = VS_CALIBRATION \<and>
     error_count (m_vs ?t') = 1 \<and> error_ents (m_vs ?t') = ''GPS'' \<and>
     last_error (m_vs ?t') = ''GPS: fault''"
    and f: "\<forall>clk'. minus_double imc5 (Clock_get clk') (m_switch_time ?t) \<le>
          calibration_time (m_args ?t) \<longrightarrow>
        task imc5 clk' ?t' = Some (dispatch (VehicleStateMsg (m_vs ?t')) ?t')"
    and g: "\<forall>clk'. entityError imc5 ?t' \<and> 0 \<le> m_switch_time ?t \<and>
        calibration_time (m_args ?t) < minus_double imc5 (Clock_get clk') (m_switch_time ?t) \<longrightarrow>
        (\<exists>t''. task imc5 clk' ?t' = Some t'' \<and> op_mode (m_vs t'') = VS_ERROR)"
    by (simp_all add: d)
  from f c(4) have "task imc5 (at_time 5) ?t' = Some (dispatch (VehicleStateMsg (m_vs ?t')) ?t')"
    by blast
  with b(1) have "after [] [(at_time 1, VehicleCommandEv calibrate),
      (at_time 2, EntityMonitoringStateEv (entity_error ''GPS'')), (at_time 5, Tick)] =
     dispatch (VehicleStateMsg (m_vs ?t')) ?t'"
    by simp
  then have p5: "op_mode (m_vs (after [] [(at_time 1, VehicleCommandEv calibrate),
      (at_time 2, EntityMonitoringStateEv (entity_error ''GPS'')), (at_time 5, Tick)])) =
     VS_CALIBRATION"
    using e by (simp add: dispatch_def)
  from g c(1,2,3) b(2) have p12: "op_mode (m_vs (after [] [(at_time 1, VehicleCommandEv calibrate),
      (at_time 2, EntityMonitoringStateEv (entity_error ''GPS'')), (at_time 12, Tick)])) =
     VS_ERROR"
    by auto
  from h e c p5 p12 show ?thesis by simp
qed

text \<open>
  C6 as the spec states it (\<open>last_error\<close> is updated) fails when the error kept is the
  newer one: after an \<open>Abort\<close> and a request to calibrate, an error of GPS whose
  \<open>last_error_time\<close> is before the abort is an entity error and is counted, the mode stays
  CALIBRATION, and \<open>last_error\<close> is still the one of the abort.
\<close>

theorem entity_error_in_calibration_counterexample:
  "op_mode (m_vs (after [] [(at_time 1, Abort), (at_time 2, VehicleCommandEv calibrate)])) =
     VS_CALIBRATION \<and>
   consume_EntityMonitoringState imc5 (at_time 3)
       ((entity_error ''GPS'')\<lparr>ems_last_error_time := 1000000\<rparr>)
       (after [] [(at_time 1, Abort), (at_time 2, VehicleCommandEv calibrate)]) =
     Some (after [] [(at_time 1, Abort), (at_time 2, VehicleCommandEv calibrate),
       (at_time 3, EntityMonitoringStateEv
          ((entity_error ''GPS'')\<lparr>ems_last_error_time := 1000000\<rparr>))]) \<and>
   entityError imc5 (after [] [(at_time 1, Abort), (at_time 2, VehicleCommandEv calibrate),
       (at_time 3, EntityMonitoringStateEv
          ((entity_error ''GPS'')\<lparr>ems_last_error_time := 1000000\<rparr>))]) \<and>
   error_count (m_vs (after [] [(at_time 1, Abort), (at_time 2, VehicleCommandEv calibrate),
       (at_time 3, EntityMonitoringStateEv
          ((entity_error ''GPS'')\<lparr>ems_last_error_time := 1000000\<rparr>))])) = 1 \<and>
   error_ents (m_vs (after [] [(at_time 1, Abort), (at_time 2, VehicleCommandEv calibrate),
       (at_time 3, EntityMonitoringStateEv
          ((entity_error ''GPS'')\<lparr>ems_last_error_time := 1000000\<rparr>))])) = ''GPS'' \<and>
   ems_last_error ((entity_error ''GPS'')\<lparr>ems_last_error_time := 1000000\<rparr>) = ''GPS: fault'' \<and>
   last_error (m_vs (after [] [(at_time 1, Abort), (at_time 2, VehicleCommandEv calibrate)])) =
     ''got abort request'' \<and>
   last_error (m_vs (after [] [(at_time 1, Abort), (at_time 2, VehicleCommandEv calibrate),
       (at_time 3, EntityMonitoringStateEv
          ((entity_error ''GPS'')\<lparr>ems_last_error_time := 1000000\<rparr>))])) =
     ''got abort request'' \<and>
   op_mode (m_vs (after [] [(at_time 1, Abort), (at_time 2, VehicleCommandEv calibrate),
       (at_time 3, EntityMonitoringStateEv
          ((entity_error ''GPS'')\<lparr>ems_last_error_time := 1000000\<rparr>))])) = VS_CALIBRATION"
  by code_simp

subsection \<open>The maneuver request timeout\<close>

lemma ticks_in_maneuver:
  "op_mode (m_vs t) = VS_MANEUVER \<Longrightarrow> m_switch_time t < 0 \<Longrightarrow>
   \<exists>t'. run P (map (\<lambda>clk. (clk, Tick)) clks) t = Some t' \<and>
        op_mode (m_vs t') = VS_MANEUVER \<and> m_switch_time t' = m_switch_time t \<and>
        m_vs t' = m_vs t \<and> length (bus t') = length (bus t) + length clks \<and>
        set (bus t') = set (bus t) \<union> (if clks = [] then {} else {VehicleStateMsg (m_vs t)})"
proof (induction clks arbitrary: t)
  case Nil
  then show ?case by simp
next
  case (Cons clk clks)
  let ?t1 = "dispatch (VehicleStateMsg (m_vs t)) t"
  have s: "task P clk t = Some ?t1"
    using Cons.prems by (simp add: task_def dispatch_def Let_def)
  have "op_mode (m_vs ?t1) = VS_MANEUVER" "m_switch_time ?t1 < 0"
    using Cons.prems by (simp_all add: dispatch_def)
  from Cons.IH [OF this] s show ?case
    by (auto simp: dispatch_def split: if_splits)
qed

lemma maneuver_done:
  assumes "op_mode (m_vs t) = VS_MANEUVER" and "mcs_source msg = getSystemId P"
    and "mcs_state msg = MCS_DONE"
  shows "consume_ManeuverControlState P clk msg t =
     Some (t\<lparr>m_switch_time := to_float P (Clock_get clk),
             m_vs := (m_vs t)\<lparr>maneuver_eta := 0, flags := flags (m_vs t) OR VFLG_MANEUVER_DONE P\<rparr>,
             bus := bus t @ [VehicleStateMsg
               ((m_vs t)\<lparr>maneuver_eta := 0, flags := flags (m_vs t) OR VFLG_MANEUVER_DONE P\<rparr>)]\<rparr>)"
  using assms
  by (simp add: consume_ManeuverControlState_def mode_defs dispatch_def Let_def)

lemma tick_in_maneuver:
  assumes "op_mode (m_vs t) = VS_MANEUVER"
  shows "if m_switch_time t < 0 \<or>
        minus_double P (Clock_get clk) (m_switch_time t) \<le> c_man_timeout
     then task P clk t = Some (dispatch (VehicleStateMsg (m_vs t)) t)
     else (\<exists>t'. task P clk t = Some t' \<and>
        op_mode (m_vs t') = (if error_count (m_vs t) \<noteq> 0 then VS_ERROR else VS_SERVICE) \<and>
        bus t' = bus t @ [VehicleStateMsg (m_vs t), StopManeuver, IdleManeuver (m_idle t),
                    VehicleStateMsg (m_vs t')])"
  using assms
  by (auto simp: task_def mode_defs dispatch_def Let_def reset_def changeMode_plain
      entityError_def)

text \<open>
  C7, as amended. An accepted \<open>EXEC_MANEUVER\<close> leaves the switch timer off
  (\<open>m_switch_time = -1\<close>): the ticks that follow, however many and whenever, only emit
  the vehicle state, and the supervisor stays in MANEUVER. A \<open>ManeuverControlState\<close> DONE
  of the own system, received in MANEUVER, starts the timer, and a further one starts it
  again: \<open>m_switch_time\<close> becomes the clock, narrowed to \<open>float\<close>. A tick in MANEUVER
  computes \<open>delta\<close>, the clock minus \<open>m_switch_time\<close>: with the timer off, or \<open>delta\<close> not
  above \<open>c_man_timeout\<close> = 1, it only emits the vehicle state; with the timer running and
  \<open>delta\<close> above 1 it resets (\<open>StopManeuver\<close>, \<open>IdleManeuver\<close>) and the mode becomes
  SERVICE, or ERROR when entities are in error.
\<close>

theorem maneuver_request_timeout:
  "(vc_type cmd = VC_REQUEST \<and> vc_command cmd = VC_EXEC_MANEUVER \<and> vc_maneuver cmd = Some m \<and>
    op_mode (m_vs t) \<noteq> VS_EXTERNAL \<longrightarrow>
    (\<exists>t1. consume_VehicleCommand P clk cmd t = Some t1 \<and> op_mode (m_vs t1) = VS_MANEUVER \<and>
       m_switch_time t1 = - 1 \<and>
       (\<forall>clks. \<exists>t2. run P (map (\<lambda>clk. (clk, Tick)) clks) t1 = Some t2 \<and>
          m_vs t2 = m_vs t1 \<and> m_switch_time t2 = - 1 \<and>
          set (bus t2) = set (bus t1) \<union> (if clks = [] then {} else {VehicleStateMsg (m_vs t1)})))) \<and>
   (op_mode (m_vs t) = VS_MANEUVER \<and> mcs_source msg = getSystemId P \<and> mcs_state msg = MCS_DONE \<longrightarrow>
    (\<exists>t1. consume_ManeuverControlState P clk msg t = Some t1 \<and> op_mode (m_vs t1) = VS_MANEUVER \<and>
       m_switch_time t1 = to_float P (Clock_get clk) \<and> error_count (m_vs t1) = error_count (m_vs t))) \<and>
   (op_mode (m_vs t) = VS_MANEUVER \<longrightarrow>
    (if m_switch_time t < 0 \<or> minus_double P (Clock_get clk) (m_switch_time t) \<le> c_man_timeout
     then task P clk t = Some (dispatch (VehicleStateMsg (m_vs t)) t)
     else (\<exists>t'. task P clk t = Some t' \<and>
        op_mode (m_vs t') = (if error_count (m_vs t) \<noteq> 0 then VS_ERROR else VS_SERVICE) \<and>
        bus t' = bus t @ [VehicleStateMsg (m_vs t), StopManeuver, IdleManeuver (m_idle t),
                    VehicleStateMsg (m_vs t')])))"
proof (intro conjI impI)
  assume a: "vc_type cmd = VC_REQUEST \<and> vc_command cmd = VC_EXEC_MANEUVER \<and>
    vc_maneuver cmd = Some m \<and> op_mode (m_vs t) \<noteq> VS_EXTERNAL"
  then obtain t1 where t1: "consume_VehicleCommand P clk cmd t = Some t1"
    "op_mode (m_vs t1) = VS_MANEUVER" "m_switch_time t1 = - 1"
    by (auto simp: consume_VehicleCommand_def startManeuver_def changeMode_maneuver mode_defs
      requestOK_def answer_def dispatch_def Let_def)
  have "\<exists>t2. run P (map (\<lambda>clk. (clk, Tick)) clks) t1 = Some t2 \<and>
          m_vs t2 = m_vs t1 \<and> m_switch_time t2 = - 1 \<and>
          set (bus t2) = set (bus t1) \<union> (if clks = [] then {} else {VehicleStateMsg (m_vs t1)})"
    for clks
    using ticks_in_maneuver [of t1 P clks] t1 by auto
  with t1 show "\<exists>t1. consume_VehicleCommand P clk cmd t = Some t1 \<and> op_mode (m_vs t1) = VS_MANEUVER \<and>
       m_switch_time t1 = - 1 \<and>
       (\<forall>clks. \<exists>t2. run P (map (\<lambda>clk. (clk, Tick)) clks) t1 = Some t2 \<and>
          m_vs t2 = m_vs t1 \<and> m_switch_time t2 = - 1 \<and>
          set (bus t2) = set (bus t1) \<union> (if clks = [] then {} else {VehicleStateMsg (m_vs t1)}))"
    by blast
next
  assume "op_mode (m_vs t) = VS_MANEUVER \<and> mcs_source msg = getSystemId P \<and>
    mcs_state msg = MCS_DONE"
  then show "\<exists>t1. consume_ManeuverControlState P clk msg t = Some t1 \<and>
       op_mode (m_vs t1) = VS_MANEUVER \<and>
       m_switch_time t1 = to_float P (Clock_get clk) \<and> error_count (m_vs t1) = error_count (m_vs t)"
    by (simp add: maneuver_done)
next
  assume "op_mode (m_vs t) = VS_MANEUVER"
  then show "if m_switch_time t < 0 \<or>
        minus_double P (Clock_get clk) (m_switch_time t) \<le> c_man_timeout
     then task P clk t = Some (dispatch (VehicleStateMsg (m_vs t)) t)
     else (\<exists>t'. task P clk t = Some t' \<and>
        op_mode (m_vs t') = (if error_count (m_vs t) \<noteq> 0 then VS_ERROR else VS_SERVICE) \<and>
        bus t' = bus t @ [VehicleStateMsg (m_vs t), StopManeuver, IdleManeuver (m_idle t),
                    VehicleStateMsg (m_vs t')])"
    by (rule tick_in_maneuver)
qed

theorem maneuver_request_timeout_witness:
  "vc_type exec_goto = VC_REQUEST \<and> vc_command exec_goto = VC_EXEC_MANEUVER \<and>
   vc_maneuver exec_goto = Some goto \<and> op_mode (m_vs (booted [])) \<noteq> VS_EXTERNAL \<and>
   op_mode (m_vs (after [] [(at_time 1, VehicleCommandEv exec_goto)])) = VS_MANEUVER \<and>
   m_switch_time (after [] [(at_time 1, VehicleCommandEv exec_goto)]) = - 1 \<and>
   mcs_source (maneuver_state MCS_DONE) = getSystemId imc5 \<and>
   mcs_state (maneuver_state MCS_DONE) = MCS_DONE \<and>
   op_mode (m_vs (after [] [(at_time 1, VehicleCommandEv exec_goto),
      (at_time 5, ManeuverControlStateEv (maneuver_state MCS_DONE))])) = VS_MANEUVER \<and>
   m_switch_time (after [] [(at_time 1, VehicleCommandEv exec_goto),
      (at_time 5, ManeuverControlStateEv (maneuver_state MCS_DONE))]) = 5 \<and>
   c_man_timeout < minus_double imc5 (Clock_get (at_time 7))
      (m_switch_time (after [] [(at_time 1, VehicleCommandEv exec_goto),
         (at_time 5, ManeuverControlStateEv (maneuver_state MCS_DONE))])) \<and>
   op_mode (m_vs (after [] [(at_time 1, VehicleCommandEv exec_goto),
      (at_time 5, ManeuverControlStateEv (maneuver_state MCS_DONE)), (at_time 7, Tick)])) =
     VS_SERVICE"
proof -
  let ?t = "after [] [(at_time 1, VehicleCommandEv exec_goto)]"
  let ?t1 = "after [] [(at_time 1, VehicleCommandEv exec_goto),
      (at_time 5, ManeuverControlStateEv (maneuver_state MCS_DONE))]"
  let ?t2 = "after [] [(at_time 1, VehicleCommandEv exec_goto),
      (at_time 5, ManeuverControlStateEv (maneuver_state MCS_DONE)), (at_time 7, Tick)]"
  have h: "vc_type exec_goto = VC_REQUEST \<and> vc_command exec_goto = VC_EXEC_MANEUVER \<and>
    vc_maneuver exec_goto = Some goto \<and> op_mode (m_vs (booted [])) \<noteq> VS_EXTERNAL"
    by code_simp
  have a: "consume_VehicleCommand imc5 (at_time 1) exec_goto (booted []) = Some ?t"
    by code_simp
  from maneuver_request_timeout [where cmd = exec_goto and m = goto and t = "booted []" and
      P = imc5 and clk = "at_time 1", THEN conjunct1] h a
  have p1: "op_mode (m_vs ?t) = VS_MANEUVER \<and> m_switch_time ?t = - 1"
    by auto
  have g: "mcs_source (maneuver_state MCS_DONE) = getSystemId imc5 \<and>
    mcs_state (maneuver_state MCS_DONE) = MCS_DONE"
    by code_simp
  have b: "consume_ManeuverControlState imc5 (at_time 5) (maneuver_state MCS_DONE) ?t = Some ?t1"
    "task imc5 (at_time 7) ?t1 = Some ?t2"
    by code_simp+
  have c: "to_float imc5 (Clock_get (at_time 5)) = 5" "error_count (m_vs ?t) = 0"
    by code_simp+
  from maneuver_request_timeout [where t = ?t and P = imc5 and clk = "at_time 5" and
      msg = "maneuver_state MCS_DONE", THEN conjunct2, THEN conjunct1] p1 g b(1) c
  have p2: "op_mode (m_vs ?t1) = VS_MANEUVER \<and> m_switch_time ?t1 = 5 \<and>
      error_count (m_vs ?t1) = 0"
    by auto
  have d: "c_man_timeout < minus_double imc5 (Clock_get (at_time 7)) (m_switch_time ?t1)"
    "\<not> m_switch_time ?t1 < 0"
    by code_simp+
  from maneuver_request_timeout [where t = ?t1 and P = imc5 and clk = "at_time 7",
      THEN conjunct2, THEN conjunct2] p2 d b(2)
  have p3: "op_mode (m_vs ?t2) = VS_SERVICE"
    by auto
  from h p1 g p2 d(1) p3 show ?thesis by simp
qed

text \<open>
  C7 as the spec states it fails: after an accepted \<open>EXEC_MANEUVER\<close> and no
  \<open>ManeuverControlState\<close>, ticks 0.5, 1.5 and 99 seconds later leave the supervisor in
  MANEUVER; each dispatches the vehicle state and nothing else.
\<close>

theorem maneuver_request_timeout_counterexample:
  "consume_VehicleCommand imc5 (at_time 1) exec_goto (booted []) =
     Some (after [] [(at_time 1, VehicleCommandEv exec_goto)]) \<and>
   vc_type (m_vc_reply (after [] [(at_time 1, VehicleCommandEv exec_goto)])) = VC_SUCCESS \<and>
   op_mode (m_vs (after [] [(at_time 1, VehicleCommandEv exec_goto)])) = VS_MANEUVER \<and>
   run imc5 [(at_time 1.5, Tick), (at_time 2.5, Tick), (at_time 100, Tick)]
       (after [] [(at_time 1, VehicleCommandEv exec_goto)]) =
     Some (after [] [(at_time 1, VehicleCommandEv exec_goto), (at_time 1.5, Tick),
        (at_time 2.5, Tick), (at_time 100, Tick)]) \<and>
   op_mode (m_vs (after [] [(at_time 1, VehicleCommandEv exec_goto), (at_time 1.5, Tick),
        (at_time 2.5, Tick), (at_time 100, Tick)])) = VS_MANEUVER \<and>
   bus (after [] [(at_time 1, VehicleCommandEv exec_goto), (at_time 1.5, Tick),
        (at_time 2.5, Tick), (at_time 100, Tick)]) =
     bus (after [] [(at_time 1, VehicleCommandEv exec_goto)]) @
       [VehicleStateMsg (m_vs (after [] [(at_time 1, VehicleCommandEv exec_goto)])),
        VehicleStateMsg (m_vs (after [] [(at_time 1, VehicleCommandEv exec_goto)])),
        VehicleStateMsg (m_vs (after [] [(at_time 1, VehicleCommandEv exec_goto)]))]"
  by code_simp

subsection \<open>The maneuver fields in every reachable state\<close>

text \<open>
  Each handler and the tick keep the invariant \<open>maneuver_fields_ok\<close>; so does
  \<open>onResourceInitialization\<close> establish it.
\<close>

lemma inv_Abort:
  "maneuver_fields_ok t \<Longrightarrow> consume_Abort P clk t = Some t' \<Longrightarrow> maneuver_fields_ok t'"
  by (cases "op_mode (m_vs t)")
    (auto simp: consume_Abort_def changeMode_plain mode_defs dispatch_def reset_def Let_def
      nonOverridableLoops_def last_maneuver_def split: if_splits)

lemma inv_ControlLoops:
  "maneuver_fields_ok t \<Longrightarrow> consume_ControlLoops P clk msg t = Some t' \<Longrightarrow> maneuver_fields_ok t'"
  by (cases "op_mode (m_vs t)")
    (auto simp: consume_ControlLoops_def onEnabledControlLoops_def onDisabledControlLoops_def
      changeMode_plain mode_defs dispatch_def reset_def Let_def last_maneuver_def
      split: if_splits)

lemma inv_PlanControl:
  "maneuver_fields_ok t \<Longrightarrow> maneuver_fields_ok (consume_PlanControl P msg t)"
  by (simp add: consume_PlanControl_def)

lemma inv_ManeuverControlState:
  "maneuver_fields_ok t \<Longrightarrow> consume_ManeuverControlState P clk msg t = Some t' \<Longrightarrow>
   maneuver_fields_ok t'"
  by (cases "mcs_state msg")
    (auto simp: consume_ManeuverControlState_def changeMode_plain mode_defs dispatch_def
      reset_def Let_def last_maneuver_def split: if_splits)

lemma inv_task:
  "maneuver_fields_ok t \<Longrightarrow> task P clk t = Some t' \<Longrightarrow> maneuver_fields_ok t'"
  by (cases "op_mode (m_vs t)")
    (auto simp: task_def changeMode_plain mode_defs dispatch_def
      reset_def Let_def last_maneuver_def split: if_splits)


lemma inv_EntityMonitoringState:
  "maneuver_fields_ok t \<Longrightarrow> consume_EntityMonitoringState P clk msg t = Some t' \<Longrightarrow>
   maneuver_fields_ok t'"
  by (cases "op_mode (m_vs t)")
    (auto simp: consume_EntityMonitoringState_split record_errors_frame changeMode_plain mode_defs
      dispatch_def reset_def Let_def last_maneuver_def split: if_splits)

lemma inv_VehicleCommand:
  "maneuver_fields_ok t \<Longrightarrow> stamped P clk (VehicleCommandEv cmd) \<Longrightarrow>
   consume_VehicleCommand P clk cmd t = Some t' \<Longrightarrow> maneuver_fields_ok t'"
  by (cases "op_mode (m_vs t)"; cases "vc_command cmd")
    (auto simp: consume_VehicleCommand_def startManeuver_def stopManeuver_def
      startCalibration_def requestOK_def requestFailed_def answer_def
      changeMode_plain changeMode_maneuver mode_defs
      dispatch_def reset_def Let_def last_maneuver_def split: if_splits option.splits)

lemma inv_initial:
  "constructed t \<Longrightarrow> maneuver_fields_ok (onResourceInitialization clk t)"
  by (simp add: onResourceInitialization_def setInitialState_def Let_def)

lemma inv_step:
  "maneuver_fields_ok t \<Longrightarrow> stamped P clk ev \<Longrightarrow> step P clk ev t = Some t' \<Longrightarrow>
   maneuver_fields_ok t'"
proof (cases ev)
  case Abort
  then show "maneuver_fields_ok t \<Longrightarrow> step P clk ev t = Some t' \<Longrightarrow> maneuver_fields_ok t'"
    using inv_Abort [of t P clk t'] by simp
next
  case (ControlLoopsEv msg)
  then show "maneuver_fields_ok t \<Longrightarrow> step P clk ev t = Some t' \<Longrightarrow> maneuver_fields_ok t'"
    using inv_ControlLoops [of t P clk msg t'] by simp
next
  case (EntityMonitoringStateEv msg)
  then show "maneuver_fields_ok t \<Longrightarrow> step P clk ev t = Some t' \<Longrightarrow> maneuver_fields_ok t'"
    using inv_EntityMonitoringState [of t P clk msg t'] by simp
next
  case (ManeuverControlStateEv msg)
  then show "maneuver_fields_ok t \<Longrightarrow> step P clk ev t = Some t' \<Longrightarrow> maneuver_fields_ok t'"
    using inv_ManeuverControlState [of t P clk msg t'] by simp
next
  case (PlanControlEv msg)
  then show "maneuver_fields_ok t \<Longrightarrow> step P clk ev t = Some t' \<Longrightarrow> maneuver_fields_ok t'"
    using inv_PlanControl [of t P msg] by auto
next
  case (VehicleCommandEv cmd)
  then show "maneuver_fields_ok t \<Longrightarrow> stamped P clk ev \<Longrightarrow> step P clk ev t = Some t' \<Longrightarrow>
    maneuver_fields_ok t'"
    using inv_VehicleCommand [of t P clk cmd t'] by simp
next
  case Tick
  then show "maneuver_fields_ok t \<Longrightarrow> step P clk ev t = Some t' \<Longrightarrow> maneuver_fields_ok t'"
    using inv_task [of t P clk t'] by simp
qed

lemma reachable_maneuver_fields_ok: "reachable P t \<Longrightarrow> maneuver_fields_ok t"
proof (induction rule: reachable.induct)
  case (initial t clk)
  then show ?case by (rule inv_initial)
next
  case (handled t clk ev t')
  from handled.IH handled.hyps(2,3) show ?case by (rule inv_step)
qed

text \<open>
  C8. In every state that the handlers and the periodic tick reach from the initial state,
  \<open>maneuver_stime \<ge> 0\<close> holds if and only if \<open>op_mode = MANEUVER\<close>; and in MANEUVER
  \<open>maneuver_type\<close> is the id (and \<open>maneuver_stime\<close> the time stamp) of the maneuver
  dispatched last, after which no \<open>IdleManeuver\<close> has been dispatched. The time stamps of
  dispatched maneuvers are taken not to be negative (\<open>stamped\<close>).
\<close>

theorem maneuver_invariant:
  assumes "reachable P t"
  shows "(0 \<le> maneuver_stime (m_vs t) \<longleftrightarrow> op_mode (m_vs t) = VS_MANEUVER) \<and>
    (op_mode (m_vs t) = VS_MANEUVER \<longrightarrow>
       (\<exists>m. last_maneuver (bus t) = Some m \<and> maneuver_type (m_vs t) = getId m \<and>
            maneuver_stime (m_vs t) = getTimeStamp m))"
  using reachable_maneuver_fields_ok [OF assms] by auto

text \<open>A run of stamped events from a reachable state ends in a reachable state.\<close>

lemma run_reachable:
  "reachable P t \<Longrightarrow> list_all (\<lambda>(clk, ev). stamped P clk ev) evs \<Longrightarrow>
   run P evs t = Some t' \<Longrightarrow> reachable P t'"
proof (induction evs arbitrary: t)
  case Nil
  then show ?case by simp
next
  case (Cons e evs)
  obtain clk ev where e: "e = (clk, ev)" by (cases e)
  from Cons.prems(3) e obtain t1 where s: "step P clk ev t = Some t1" and r: "run P evs t1 = Some t'"
    by (auto split: option.splits)
  from Cons.prems(2) e have st: "stamped P clk ev" and rest: "list_all (\<lambda>(clk, ev). stamped P clk ev) evs"
    by simp_all
  from Cons.prems(1) st s have "reachable P t1" by (rule reachable.handled)
  from Cons.IH [OF this rest r] show ?case .
qed

theorem maneuver_invariant_witness:
  "reachable imc5 (after [] [(at_time 1, VehicleCommandEv exec_goto),
      (at_time 2, ManeuverControlStateEv (maneuver_state MCS_EXECUTING)), (at_time 3, Tick)]) \<and>
   op_mode (m_vs (after [] [(at_time 1, VehicleCommandEv exec_goto),
      (at_time 2, ManeuverControlStateEv (maneuver_state MCS_EXECUTING)), (at_time 3, Tick)])) =
     VS_MANEUVER \<and>
   0 \<le> maneuver_stime (m_vs (after [] [(at_time 1, VehicleCommandEv exec_goto),
      (at_time 2, ManeuverControlStateEv (maneuver_state MCS_EXECUTING)), (at_time 3, Tick)])) \<and>
   last_maneuver (bus (after [] [(at_time 1, VehicleCommandEv exec_goto),
      (at_time 2, ManeuverControlStateEv (maneuver_state MCS_EXECUTING)), (at_time 3, Tick)])) =
     Some (goto\<lparr>getTimeStamp := 1000001\<rparr>) \<and>
   maneuver_type (m_vs (after [] [(at_time 1, VehicleCommandEv exec_goto),
      (at_time 2, ManeuverControlStateEv (maneuver_state MCS_EXECUTING)), (at_time 3, Tick)])) =
     getId goto"
proof -
  let ?evs = "[(at_time 1, VehicleCommandEv exec_goto),
      (at_time 2, ManeuverControlStateEv (maneuver_state MCS_EXECUTING)), (at_time 3, Tick)]"
  have "constructed (created [])"
    by (simp add: constructed_def created_def)
  then have "reachable imc5 (booted [])"
    unfolding booted_def by (rule reachable.initial)
  moreover have "list_all (\<lambda>(clk, ev). stamped imc5 clk ev) ?evs"
    by code_simp
  moreover have "run imc5 ?evs (booted []) = Some (after [] ?evs)"
    by code_simp
  ultimately have r: "reachable imc5 (after [] ?evs)"
    by (rule run_reachable)
  have c: "op_mode (m_vs (after [] ?evs)) = VS_MANEUVER"
    "last_maneuver (bus (after [] ?evs)) = Some (goto\<lparr>getTimeStamp := 1000001\<rparr>)"
    by code_simp+
  from maneuver_invariant [OF r] r c show ?thesis by simp
qed

subsection \<open>Entering SERVICE with entity errors pending\<close>

text \<open>
  Handler by handler: when the mode was not SERVICE before and is SERVICE after, no
  entity error is pending after; for \<open>ManeuverControlState\<close>, none was pending before.
\<close>

lemma guard_Abort:
  "consume_Abort P clk t = Some t' \<Longrightarrow> op_mode (m_vs t) \<noteq> VS_SERVICE \<Longrightarrow>
   op_mode (m_vs t') = VS_SERVICE \<Longrightarrow> \<not> entityError P t'"
  by (cases "op_mode (m_vs t)")
    (auto simp: consume_Abort_def changeMode_plain mode_defs dispatch_def reset_def Let_def
      nonOverridableLoops_def entityError_def split: if_splits)

lemma guard_ControlLoops:
  "consume_ControlLoops P clk msg t = Some t' \<Longrightarrow> op_mode (m_vs t) \<noteq> VS_SERVICE \<Longrightarrow>
   op_mode (m_vs t') = VS_SERVICE \<Longrightarrow> \<not> entityError P t'"
  by (cases "op_mode (m_vs t)")
    (auto simp: consume_ControlLoops_def onEnabledControlLoops_def onDisabledControlLoops_def
      changeMode_plain mode_defs dispatch_def reset_def Let_def entityError_def
      split: if_splits)

lemma guard_EntityMonitoringState:
  "consume_EntityMonitoringState P clk msg t = Some t' \<Longrightarrow> op_mode (m_vs t) \<noteq> VS_SERVICE \<Longrightarrow>
   op_mode (m_vs t') = VS_SERVICE \<Longrightarrow> \<not> entityError P t'"
  by (cases "op_mode (m_vs t)")
    (auto simp: consume_EntityMonitoringState_split record_errors_frame changeMode_plain mode_defs
      dispatch_def reset_def Let_def entityError_def split: if_splits)

lemma guard_ManeuverControlState:
  "consume_ManeuverControlState P clk msg t = Some t' \<Longrightarrow> op_mode (m_vs t) \<noteq> VS_SERVICE \<Longrightarrow>
   op_mode (m_vs t') = VS_SERVICE \<Longrightarrow> mcs_state msg = MCS_ERROR \<and> \<not> entityError P t"
  by (cases "mcs_state msg")
    (auto simp: consume_ManeuverControlState_def changeMode_plain mode_defs dispatch_def
      reset_def Let_def entityError_def split: if_splits)

lemma guard_VehicleCommand:
  "consume_VehicleCommand P clk cmd t = Some t' \<Longrightarrow> op_mode (m_vs t) \<noteq> VS_SERVICE \<Longrightarrow>
   op_mode (m_vs t') = VS_SERVICE \<Longrightarrow> \<not> entityError P t'"
  by (cases "op_mode (m_vs t)"; cases "vc_command cmd")
    (auto simp: consume_VehicleCommand_def startManeuver_def stopManeuver_def
      startCalibration_def requestOK_def requestFailed_def answer_def
      changeMode_plain changeMode_maneuver mode_defs entityError_def
      dispatch_def reset_def Let_def split: if_splits option.splits)

lemma guard_task:
  "task P clk t = Some t' \<Longrightarrow> op_mode (m_vs t) \<noteq> VS_SERVICE \<Longrightarrow>
   op_mode (m_vs t') = VS_SERVICE \<Longrightarrow> \<not> entityError P t'"
  by (cases "op_mode (m_vs t)")
    (auto simp: task_def changeMode_plain mode_defs dispatch_def entityError_def
      reset_def Let_def split: if_splits)

lemma changeMode_service:
  "op_mode (m_vs t) \<noteq> VS_SERVICE \<Longrightarrow>
   \<exists>t'. changeMode P clk VS_SERVICE maneuver t = Some t' \<and>
     op_mode (m_vs t') = (if entityError P t then VS_ERROR else VS_SERVICE)"
  by (auto simp: changeMode_def mode_defs dispatch_def Let_def)

text \<open>
  C10, as amended. Whenever \<open>changeMode\<close> is called with target SERVICE while the mode
  differs, it returns and the mode becomes ERROR when \<open>entityError()\<close> is true, SERVICE
  otherwise. So, when a handler or the tick takes the supervisor from another mode into
  SERVICE, \<open>entityError()\<close> is false when it returns, for every handler but
  \<open>ManeuverControlState\<close>: that one enters SERVICE only on \<open>MCS_ERROR\<close>, and
  \<open>entityError()\<close> was false when it was received (and at its call of \<open>changeMode\<close>).
\<close>

theorem service_guard:
  "(op_mode (m_vs t) \<noteq> VS_SERVICE \<longrightarrow>
      (\<exists>t'. changeMode P clk VS_SERVICE maneuver t = Some t' \<and>
         op_mode (m_vs t') = (if entityError P t then VS_ERROR else VS_SERVICE))) \<and>
   (step P clk ev t = Some t' \<and> op_mode (m_vs t) \<noteq> VS_SERVICE \<and>
    op_mode (m_vs t') = VS_SERVICE \<longrightarrow>
      (case ev of
         ManeuverControlStateEv msg \<Rightarrow> mcs_state msg = MCS_ERROR \<and> \<not> entityError P t
       | _ \<Rightarrow> \<not> entityError P t'))"
proof (intro conjI impI)
  assume "op_mode (m_vs t) \<noteq> VS_SERVICE"
  then show "\<exists>t'. changeMode P clk VS_SERVICE maneuver t = Some t' \<and>
         op_mode (m_vs t') = (if entityError P t then VS_ERROR else VS_SERVICE)"
    by (rule changeMode_service)
next
  assume a: "step P clk ev t = Some t' \<and> op_mode (m_vs t) \<noteq> VS_SERVICE \<and>
    op_mode (m_vs t') = VS_SERVICE"
  show "case ev of
         ManeuverControlStateEv msg \<Rightarrow> mcs_state msg = MCS_ERROR \<and> \<not> entityError P t
       | _ \<Rightarrow> \<not> entityError P t'"
  proof (cases ev)
    case Abort
    with a guard_Abort [of P clk t t'] show ?thesis by simp
  next
    case (ControlLoopsEv msg)
    with a guard_ControlLoops [of P clk msg t t'] show ?thesis by simp
  next
    case (EntityMonitoringStateEv msg)
    with a guard_EntityMonitoringState [of P clk msg t t'] show ?thesis by simp
  next
    case (ManeuverControlStateEv msg)
    with a guard_ManeuverControlState [of P clk msg t t'] show ?thesis by simp
  next
    case (PlanControlEv msg)
    with a show ?thesis by (auto simp: consume_PlanControl_def split: if_splits)
  next
    case (VehicleCommandEv cmd)
    with a guard_VehicleCommand [of P clk cmd t t'] show ?thesis by simp
  next
    case Tick
    with a guard_task [of P clk t t'] show ?thesis by simp
  qed
qed

theorem service_guard_witness:
  "op_mode (m_vs (after [] [(at_time 1, VehicleCommandEv calibrate),
      (at_time 2, EntityMonitoringStateEv (entity_error ''GPS''))])) \<noteq> VS_SERVICE \<and>
   entityError imc5 (after [] [(at_time 1, VehicleCommandEv calibrate),
      (at_time 2, EntityMonitoringStateEv (entity_error ''GPS''))]) \<and>
   map_option (op_mode \<circ> m_vs) (changeMode imc5 (at_time 12) VS_SERVICE None
      (after [] [(at_time 1, VehicleCommandEv calibrate),
         (at_time 2, EntityMonitoringStateEv (entity_error ''GPS''))])) = Some VS_ERROR \<and>
   step imc5 (at_time 2) (VehicleCommandEv stop_request)
       (after [] [(at_time 1, VehicleCommandEv exec_goto)]) =
     Some (after [] [(at_time 1, VehicleCommandEv exec_goto),
       (at_time 2, VehicleCommandEv stop_request)]) \<and>
   op_mode (m_vs (after [] [(at_time 1, VehicleCommandEv exec_goto)])) \<noteq> VS_SERVICE \<and>
   op_mode (m_vs (after [] [(at_time 1, VehicleCommandEv exec_goto),
       (at_time 2, VehicleCommandEv stop_request)])) = VS_SERVICE \<and>
   \<not> entityError imc5 (after [] [(at_time 1, VehicleCommandEv exec_goto),
       (at_time 2, VehicleCommandEv stop_request)])"
proof -
  let ?c = "after [] [(at_time 1, VehicleCommandEv calibrate),
      (at_time 2, EntityMonitoringStateEv (entity_error ''GPS''))]"
  let ?m = "after [] [(at_time 1, VehicleCommandEv exec_goto)]"
  let ?m' = "after [] [(at_time 1, VehicleCommandEv exec_goto),
       (at_time 2, VehicleCommandEv stop_request)]"
  have h1: "op_mode (m_vs ?c) \<noteq> VS_SERVICE" "entityError imc5 ?c"
    by code_simp+
  have h2: "step imc5 (at_time 2) (VehicleCommandEv stop_request) ?m = Some ?m'"
    "op_mode (m_vs ?m) \<noteq> VS_SERVICE" "op_mode (m_vs ?m') = VS_SERVICE"
    by code_simp+
  from service_guard [where t = ?c and P = imc5 and clk = "at_time 12" and maneuver = None,
      THEN conjunct1] h1
  have p1: "map_option (op_mode \<circ> m_vs) (changeMode imc5 (at_time 12) VS_SERVICE None ?c) =
      Some VS_ERROR"
    by auto
  from service_guard [where t = ?m and t' = ?m' and P = imc5 and clk = "at_time 2" and
      ev = "VehicleCommandEv stop_request", THEN conjunct2] h2
  have p2: "\<not> entityError imc5 ?m'"
    by simp
  from h1 h2 p1 p2 show ?thesis by simp
qed

text \<open>
  C10 as stated fails for \<open>ManeuverControlState\<close> with \<open>MCS_ERROR\<close>: the handler calls
  \<open>changeMode\<close> first and \<open>reset\<close> after, and \<open>reset\<close> ends the safe plan. With
  \<open>safe_ents = ["GPS"]\<close>, a safe plan and an error of IMU, the maneuver error takes the
  supervisor from MANEUVER to SERVICE, where the error of IMU is an entity error.
\<close>

theorem service_guard_counterexample:
  "op_mode (m_vs (after [''GPS''] [(at_time 1, PlanControlEv start_safe_plan),
      (at_time 2, VehicleCommandEv exec_goto),
      (at_time 3, EntityMonitoringStateEv (entity_error ''IMU''))])) = VS_MANEUVER \<and>
   consume_ManeuverControlState imc5 (at_time 4) (maneuver_state MCS_ERROR)
       (after [''GPS''] [(at_time 1, PlanControlEv start_safe_plan),
          (at_time 2, VehicleCommandEv exec_goto),
          (at_time 3, EntityMonitoringStateEv (entity_error ''IMU''))]) =
     Some (after [''GPS''] [(at_time 1, PlanControlEv start_safe_plan),
          (at_time 2, VehicleCommandEv exec_goto),
          (at_time 3, EntityMonitoringStateEv (entity_error ''IMU'')),
          (at_time 4, ManeuverControlStateEv (maneuver_state MCS_ERROR))]) \<and>
   op_mode (m_vs (after [''GPS''] [(at_time 1, PlanControlEv start_safe_plan),
      (at_time 2, VehicleCommandEv exec_goto),
      (at_time 3, EntityMonitoringStateEv (entity_error ''IMU'')),
      (at_time 4, ManeuverControlStateEv (maneuver_state MCS_ERROR))])) = VS_SERVICE \<and>
   entityError imc5 (after [''GPS''] [(at_time 1, PlanControlEv start_safe_plan),
      (at_time 2, VehicleCommandEv exec_goto),
      (at_time 3, EntityMonitoringStateEv (entity_error ''IMU'')),
      (at_time 4, ManeuverControlStateEv (maneuver_state MCS_ERROR))])"
  by code_simp

end
